theory Spec2Isabelle
  imports Main "HOL-Library.Sublist"
begin

section \<open>Strings of the platform\<close>

text \<open>
  The program is a Node.js script (\<^verbatim>\<open>bin/gitauto.js\<close>). A string of the program is
  modelled by its UTF-8 encoding, a \<^typ>\<open>string\<close> (a list of bytes). Three string methods
  of the platform are used by the code under study: \<^verbatim>\<open>includes\<close>, \<^verbatim>\<open>toLowerCase\<close> and
  \<^verbatim>\<open>trim\<close>. \<^verbatim>\<open>toLowerCase\<close> is modelled on the ASCII letters: it maps \<^verbatim>\<open>A\<close>..\<^verbatim>\<open>Z\<close> to
  \<^verbatim>\<open>a\<close>..\<^verbatim>\<open>z\<close> and leaves every other byte alone.
\<close>

fun str_includes :: "string \<Rightarrow> string \<Rightarrow> bool" where
  "str_includes [] k = (k = [])"
| "str_includes (c # s) k = (prefix k (c # s) \<or> str_includes s k)"

definition lower_char :: "char \<Rightarrow> char" where
  "lower_char c =
     (let n = (of_char c :: nat) in if 65 \<le> n \<and> n \<le> 90 then char_of (n + 32) else c)"

definition toLowerCase :: "string \<Rightarrow> string" where
  "toLowerCase s = map lower_char s"

text \<open>
  \<^verbatim>\<open>trim\<close> removes white space and line terminators at both ends. These are the code
  points U+0009 to U+000D, U+0020, U+00A0, U+1680, U+2000 to U+200A, U+2028, U+2029,
  U+202F, U+205F, U+3000 and U+FEFF; the list holds their UTF-8 encodings.
\<close>

definition white_space :: "string list" where
  "white_space =
     [[CHR 0x09], [CHR 0x0A], [CHR 0x0B], [CHR 0x0C], [CHR 0x0D], [CHR 0x20],
      [CHR 0xC2, CHR 0xA0],
      [CHR 0xE1, CHR 0x9A, CHR 0x80],
      [CHR 0xE2, CHR 0x80, CHR 0x80], [CHR 0xE2, CHR 0x80, CHR 0x81],
      [CHR 0xE2, CHR 0x80, CHR 0x82], [CHR 0xE2, CHR 0x80, CHR 0x83],
      [CHR 0xE2, CHR 0x80, CHR 0x84], [CHR 0xE2, CHR 0x80, CHR 0x85],
      [CHR 0xE2, CHR 0x80, CHR 0x86], [CHR 0xE2, CHR 0x80, CHR 0x87],
      [CHR 0xE2, CHR 0x80, CHR 0x88], [CHR 0xE2, CHR 0x80, CHR 0x89],
      [CHR 0xE2, CHR 0x80, CHR 0x8A],
      [CHR 0xE2, CHR 0x80, CHR 0xA8], [CHR 0xE2, CHR 0x80, CHR 0xA9],
      [CHR 0xE2, CHR 0x80, CHR 0xAF],
      [CHR 0xE2, CHR 0x81, CHR 0x9F],
      [CHR 0xE3, CHR 0x80, CHR 0x80],
      [CHR 0xEF, CHR 0xBB, CHR 0xBF]]"

text \<open>
  Removing, from the front of a string, every leading occurrence of one of the given
  non-empty words, until none is left there.
\<close>

function strip_start :: "string list \<Rightarrow> string \<Rightarrow> string" where
  "strip_start ws s =
     (case find (\<lambda>w. w \<noteq> [] \<and> prefix w s) ws of
        None \<Rightarrow> s
      | Some w \<Rightarrow> strip_start ws (drop (length w) s))"
  by pat_completeness auto
termination
  by (relation "measure (\<lambda>(ws, s). length s)") (auto simp: find_Some_iff prefix_def)

declare strip_start.simps [simp del]

definition trim :: "string \<Rightarrow> string" where
  "trim s = rev (strip_start (map rev white_space) (rev (strip_start white_space s)))"

text \<open>No word of a list is a proper prefix of another.\<close>

definition prefix_free :: "'a list list \<Rightarrow> bool" where
  "prefix_free ws = (\<forall>a\<in>set ws. \<forall>b\<in>set ws. prefix a b \<longrightarrow> a = b)"

section \<open>Console output\<close>

text \<open>
  The four loggers \<^verbatim>\<open>ok\<close>, \<^verbatim>\<open>info\<close>, \<^verbatim>\<open>warn\<close> and \<^verbatim>\<open>err\<close> print one line each, with a
  colour and a symbol of their own. A printed line is modelled by the logger that printed
  it and the message it was given.
\<close>

datatype line = Ok string | Info string | Warn string | Err string

section \<open>The version-control adapter\<close>

text \<open>
  \<^verbatim>\<open>spawnSync\<close> hands back the exit status of the subprocess (\<^verbatim>\<open>null\<close> when the process
  was killed by a signal or could not be started) and the two captured streams
  (\<^verbatim>\<open>null\<close> when the process could not be started).
\<close>

record spawn_result =
  status :: "int option"
  raw_stdout :: "string option"
  raw_stderr :: "string option"

record git_result =
  ok :: bool
  stdout :: string
  stderr :: string

text \<open>The JavaScript expression \<^verbatim>\<open>(x || "")\<close> on a string or \<^verbatim>\<open>null\<close>.\<close>

definition or_empty :: "string option \<Rightarrow> string" where
  "or_empty x = (case x of None \<Rightarrow> [] | Some s \<Rightarrow> s)"

text \<open>The body of \<^verbatim>\<open>git(...args)\<close>, applied to what \<^verbatim>\<open>spawnSync\<close> returned.\<close>

definition git_result_of :: "spawn_result \<Rightarrow> git_result" where
  "git_result_of r =
     \<lparr> ok = (status r = Some 0),
       stdout = trim (or_empty (raw_stdout r)),
       stderr = trim (or_empty (raw_stderr r)) \<rparr>"

text \<open>
  The program's state: the outside world the subprocesses act on (of any type), the
  argument lists of the \<^verbatim>\<open>git\<close> subprocesses run so far, and the lines printed so far.
  The external tool is a parameter: a function from the arguments and the world to what
  \<^verbatim>\<open>spawnSync\<close> returns and the world after the subprocess.
\<close>

record 'w io =
  world :: 'w
  calls :: "string list list"
  console :: "line list"

type_synonym 'w runner = "string list \<Rightarrow> 'w \<Rightarrow> spawn_result \<times> 'w"

definition git :: "'w runner \<Rightarrow> string list \<Rightarrow> 'w io \<Rightarrow> git_result \<times> 'w io" where
  "git run args s =
     (let (r, w') = run args (world s)
      in (git_result_of r, s\<lparr> world := w', calls := calls s @ [args] \<rparr>))"

text \<open>
  \<^verbatim>\<open>spawnSync\<close> does not start a subprocess when an argument contains the character
  U+0000: it throws a \<^verbatim>\<open>TypeError\<close>, which \<^verbatim>\<open>git(...)\<close> does not catch. \<open>git_adapter\<close> is
  \<^verbatim>\<open>git(...args)\<close> on any arguments; \<open>git\<close> above is what it does once \<^verbatim>\<open>spawnSync\<close> has
  accepted them. The callers modelled below pass fixed words and a branch name taken
  from the command line, which the operating system hands over without that character.
\<close>

datatype js_error = TypeError

definition git_adapter ::
  "'w runner \<Rightarrow> string list \<Rightarrow> 'w io \<Rightarrow> js_error + git_result \<times> 'w io" where
  "git_adapter run args s =
     (if \<exists>a\<in>set args. CHR 0x00 \<in> set a then Inl TypeError else Inr (git run args s))"

definition log_ok :: "string \<Rightarrow> 'w io \<Rightarrow> 'w io" where
  "log_ok msg s = s\<lparr> console := console s @ [Ok msg] \<rparr>"

definition info :: "string \<Rightarrow> 'w io \<Rightarrow> 'w io" where
  "info msg s = s\<lparr> console := console s @ [Info msg] \<rparr>"

definition warn :: "string \<Rightarrow> 'w io \<Rightarrow> 'w io" where
  "warn msg s = s\<lparr> console := console s @ [Warn msg] \<rparr>"

definition err :: "string \<Rightarrow> 'w io \<Rightarrow> 'w io" where
  "err msg s = s\<lparr> console := console s @ [Err msg] \<rparr>"

definition getCurrentBranch :: "'w runner \<Rightarrow> 'w io \<Rightarrow> string \<times> 'w io" where
  "getCurrentBranch run s =
     (let (r, s1) = git run [''branch'', ''--show-current''] s
      in (if ok r then stdout r else ''main'', s1))"

section \<open>The push dispatcher\<close>

text \<open>
  The two tests on the error text of a failed push. The function \<^verbatim>\<open>push\<close> writes them
  inline; the names are those the test file \<^verbatim>\<open>tests/test_gitauto.js\<close> gives them.
\<close>

definition isNoUpstream :: "string \<Rightarrow> bool" where
  "isNoUpstream e = (str_includes e ''no upstream'' \<or> str_includes e ''has no upstream'')"

definition isRejected :: "string \<Rightarrow> bool" where
  "isRejected e =
     list_ex (\<lambda>k. str_includes (toLowerCase e) k)
       [''fetch first'', ''non-fast-forward'', ''rejected'']"

text \<open>The dash of the messages (U+2014, three bytes in UTF-8).\<close>

definition emdash :: string where
  "emdash = [CHR 0xE2, CHR 0x80, CHR 0x94]"

definition push :: "'w runner \<Rightarrow> string \<Rightarrow> bool \<Rightarrow> 'w io \<Rightarrow> bool \<times> 'w io" where
  "push run branch forcePush s =
     (if forcePush then
        (let s1 = warn (''Force pushing '' @ emdash @ '' this overwrites remote history.'') s;
             (r, s2) = git run [''push'', ''--force'', ''origin'', branch] s1
         in if ok r then (True, log_ok (''Force-pushed to origin/'' @ branch) s2)
            else (False, err (''Force push failed: '' @ stderr r) s2))
      else
        (let s1 = info (''Pushing to origin/'' @ branch @ ''...'') s;
             (r, s2) = git run [''push'', ''origin'', branch] s1
         in if ok r then (True, log_ok (''Pushed to origin/'' @ branch) s2)
            else if isNoUpstream (stderr r) then
              (let s3 = info (''New branch '' @ emdash @ '' setting upstream automatically...'') s2;
                   (r', s4) = git run [''push'', ''--set-upstream'', ''origin'', branch] s3
               in if ok r' then
                    (True, log_ok (''Pushed and upstream set for origin/'' @ branch) s4)
                  else (False, err (''Failed to set upstream: '' @ stderr r') s4))
            else if isRejected (stderr r) then
              (let s3 = info (''Remote has new commits '' @ emdash @ '' rebasing automatically...'') s2;
                   (rebase, s4) = git run [''pull'', ''--rebase'', ''origin'', branch] s3
               in if \<not> ok rebase then
                    (let s5 = err (''Auto-rebase failed '' @ emdash
                                   @ '' conflicts need manual resolution.'') s4;
                         s6 = info ''Your repo is in rebase state. To resolve:'' s5;
                         s7 = info ''  1. Open conflicted files and fix the markers'' s6;
                         s8 = info ''  2. git add .'' s7;
                         s9 = info ''  3. git rebase --continue'' s8;
                         s10 = info (''  4. git push origin '' @ branch) s9;
                         s11 = info ''  Or to cancel: git rebase --abort'' s10
                     in (False, s11))
                  else
                    (let (r', s5) = git run [''push'', ''origin'', branch] s4
                     in if ok r' then
                          (True, log_ok (''Pushed to origin/'' @ branch @ '' after rebase.'') s5)
                        else (False, err (''Push failed after rebase: '' @ stderr r') s5)))
            else (False, err (''Push failed: '' @ stderr r) s2)))"

section \<open>Branch switching\<close>

definition switchBranch :: "'w runner \<Rightarrow> string \<Rightarrow> 'w io \<Rightarrow> string \<times> 'w io" where
  "switchBranch run name s =
     (let (r, s1) = git run [''checkout'', name] s
      in if ok r then (name, log_ok (''Switched to branch: '' @ name) s1)
         else
           (let s2 = info (''Branch '' @ [CHR 0x27] @ name @ [CHR 0x27] @ '' not found ''
                           @ emdash @ '' creating it...'') s1;
                (r', s3) = git run [''checkout'', ''-b'', name] s2
            in if ok r' then (name, log_ok (''Created and switched to: '' @ name) s3)
               else
                 getCurrentBranch run
                   (err (''Could not switch/create branch '' @ [CHR 0x27] @ name @ [CHR 0x27]
                         @ '': '' @ stderr r') s3)))"

section \<open>The AI failure report\<close>

text \<open>
  \<^verbatim>\<open>handleAiError(provider, error)\<close> prints its report; the model returns the lines it
  prints. The message of the error is a string, or \<^verbatim>\<open>undefined\<close> when the thrown value
  has none, which the template of the last branch prints as the word \<^verbatim>\<open>undefined\<close>.
\<close>

definition handleAiError :: "string \<Rightarrow> string option \<Rightarrow> line list" where
  "handleAiError provider message =
     (let msg = toLowerCase (or_empty message)
      in if str_includes msg ''credit'' \<or> str_includes msg ''quota''
            \<or> str_includes msg ''insufficient'' then
           [Err ''AI API credits exhausted.'']
           @ (if provider = ''anthropic''
              then [Info ''Billing: https://console.anthropic.com/settings/billing''] else [])
           @ (if provider = ''openai''
              then [Info ''Billing: https://platform.openai.com/account/billing''] else [])
           @ [Info ''Or skip AI with: gtxr --no-ai'']
         else if str_includes msg ''invalid'' \<or> str_includes msg ''auth''
            \<or> str_includes msg ''401'' then
           [Err ''Invalid API key. Reconfigure with: gtxr setup'']
         else if str_includes msg ''rate'' \<or> str_includes msg ''429'' then
           [Err ''Rate limit hit. Wait a moment and retry, or use: gtxr --no-ai'']
         else
           [Err (''AI generation failed: ''
                 @ (case message of None \<Rightarrow> ''undefined'' | Some m \<Rightarrow> m))])"

section \<open>The configuration store\<close>

text \<open>
  The configuration is the object the program reads the members \<^verbatim>\<open>provider\<close> and
  \<^verbatim>\<open>apiKey\<close> from; a member that is absent is \<^const>\<open>None\<close>, and \<^verbatim>\<open>{}\<close> has neither.
\<close>

record config =
  provider :: "string option"
  apiKey :: "string option"















section \<open>The argument parser\<close>

text \<open>
  The options record of \<^verbatim>\<open>parseArgs\<close>. Its members \<^verbatim>\<open>help\<close> and \<^verbatim>\<open>setup\<close> are named
  \<open>help_flag\<close> and \<open>setup_flag\<close> here.
\<close>

record opts =
  version :: bool
  help_flag :: bool
  setup_flag :: bool
  upgrade :: bool
  uninstall :: bool
  noPush :: bool
  noAi :: bool
  forcePush :: bool
  branch :: "string option"

definition VALID_ARGS :: "string set" where
  "VALID_ARGS =
     {''-v'', ''--version'', ''-h'', ''--help'',
      ''setup'', ''upgrade'', ''uninstall'',
      ''--no-push'', ''--no-ai'', ''--force-push'',
      ''--branch'', ''-b''}"

definition initial_opts :: opts where
  "initial_opts =
     \<lparr> version = False, help_flag = False, setup_flag = False, upgrade = False, uninstall = False,
       noPush = False, noAi = False, forcePush = False, branch = None \<rparr>"

text \<open>
  \<^verbatim>\<open>process.exit(1)\<close> inside the parser ends the program: the parser then gives the
  lines printed before the exit and the exit status, on the left of the sum.
\<close>

type_synonym exit = "line list \<times> int"

text \<open>The \<^verbatim>\<open>while\<close> loop of \<^verbatim>\<open>parseArgs\<close>, over the arguments from index \<open>i\<close> on.\<close>

fun parse_loop :: "opts \<Rightarrow> string list \<Rightarrow> exit + opts" where
  "parse_loop opts [] = Inr opts"
| "parse_loop opts (x # xs) =
     (let a = toLowerCase x
      in if a \<notin> VALID_ARGS then
           Inl ([Err (''Unknown argument: '' @ [CHR 0x27] @ x @ [CHR 0x27]),
                 Info ''Run 'gtxr --help' to see valid commands.''], 1)
         else if a = ''-v'' \<or> a = ''--version'' then parse_loop (opts\<lparr> version := True \<rparr>) xs
         else if a = ''-h'' \<or> a = ''--help'' then parse_loop (opts\<lparr> help_flag := True \<rparr>) xs
         else if a = ''setup'' then parse_loop (opts\<lparr> setup_flag := True \<rparr>) xs
         else if a = ''upgrade'' then parse_loop (opts\<lparr> upgrade := True \<rparr>) xs
         else if a = ''uninstall'' then parse_loop (opts\<lparr> uninstall := True \<rparr>) xs
         else if a = ''--no-push'' then parse_loop (opts\<lparr> noPush := True \<rparr>) xs
         else if a = ''--no-ai'' then parse_loop (opts\<lparr> noAi := True \<rparr>) xs
         else if a = ''--force-push'' then parse_loop (opts\<lparr> forcePush := True \<rparr>) xs
         else if a = ''--branch'' \<or> a = ''-b'' then
           (case xs of
              [] \<Rightarrow> Inl ([Err ''--branch requires a branch name.''], 1)
            | name # rest \<Rightarrow> parse_loop (opts\<lparr> branch := Some name \<rparr>) rest)
         else parse_loop opts xs)"

definition parseArgs :: "string list \<Rightarrow> exit + opts" where
  "parseArgs argv = parse_loop initial_opts (drop 2 argv)"

section \<open>Sample environments\<close>

text \<open>
  Concrete stand-ins for the external tool, on which the program can be run step by step.
  The first replays a prepared list of subprocess outcomes, one per call, whatever the
  arguments; once the list is used up, a call is a subprocess that could not be started.
\<close>

definition exited :: "int \<Rightarrow> string \<Rightarrow> string \<Rightarrow> spawn_result" where
  "exited code out errs = \<lparr> status = Some code, raw_stdout = Some out, raw_stderr = Some errs \<rparr>"

definition replay :: "spawn_result list runner" where
  "replay args w =
     (case w of
        [] \<Rightarrow> (\<lparr> status = None, raw_stdout = None, raw_stderr = None \<rparr>, [])
      | r # rs \<Rightarrow> (r, rs))"

definition start :: "'w \<Rightarrow> 'w io" where
  "start w = \<lparr> world = w, calls = [], console = [] \<rparr>"

text \<open>
  The second is a small repository: the current branch and the list of branches. It
  answers \<^verbatim>\<open>branch --show-current\<close>, \<^verbatim>\<open>checkout <name>\<close> (which fails on a branch that
  does not exist) and \<^verbatim>\<open>checkout -b <name>\<close> (which fails on a branch that exists and
  on a name that is empty or contains a space); a command that fails changes nothing.
\<close>

record repo =
  current :: string
  branches :: "string list"

definition sample_git :: "repo runner" where
  "sample_git args w =
     (if args = [''branch'', ''--show-current''] then
        (exited 0 (current w @ [CHR 0x0A]) [], w)
      else
        (case args of
           [c, n] \<Rightarrow>
             if c = ''checkout'' \<and> n \<in> set (branches w)
             then (exited 0 [] (''Switched to branch '' @ n), w\<lparr> current := n \<rparr>)
             else (exited 1 [] ''error: pathspec did not match any file(s) known to git'', w)
         | [c, f, n] \<Rightarrow>
             if c = ''checkout'' \<and> f = ''-b'' \<and> n \<notin> set (branches w)
                \<and> n \<noteq> [] \<and> CHR '' '' \<notin> set n
             then (exited 0 [] (''Switched to a new branch '' @ n),
                   w\<lparr> current := n, branches := n # branches w \<rparr>)
             else (exited 128 [] ''fatal: not a valid new branch'', w)
         | _ \<Rightarrow> (exited 1 [] ''git: unsupported in this sample'', w)))"

text \<open>
  The third is the same repository with a \<^verbatim>\<open>post-checkout\<close> hook that fails: a
  \<^verbatim>\<open>checkout\<close> that succeeds still switches the branch, and exits with the status 1 of
  the hook.
\<close>

definition hooked_git :: "repo runner" where
  "hooked_git args w =
     (let (r, w') = sample_git args w
      in (if take 1 args = [''checkout''] \<and> status r = Some 0
          then r\<lparr> status := Some 1 \<rparr> else r, w'))"

section \<open>Auxiliary notions for the argument parser\<close>

text \<open>
  What the \<^verbatim>\<open>switch\<close> of \<^verbatim>\<open>parseArgs\<close> does to the options for a lower-cased token that
  is a flag without a value: the case of that token sets its member to \<^verbatim>\<open>true\<close>.
\<close>

definition set_flag :: "string \<Rightarrow> opts \<Rightarrow> opts" where
  "set_flag a opts =
     (if a = ''-v'' \<or> a = ''--version'' then opts\<lparr> version := True \<rparr>
      else if a = ''-h'' \<or> a = ''--help'' then opts\<lparr> help_flag := True \<rparr>
      else if a = ''setup'' then opts\<lparr> setup_flag := True \<rparr>
      else if a = ''upgrade'' then opts\<lparr> upgrade := True \<rparr>
      else if a = ''uninstall'' then opts\<lparr> uninstall := True \<rparr>
      else if a = ''--no-push'' then opts\<lparr> noPush := True \<rparr>
      else if a = ''--no-ai'' then opts\<lparr> noAi := True \<rparr>
      else if a = ''--force-push'' then opts\<lparr> forcePush := True \<rparr>
      else opts)"

section \<open>Substrings\<close>

lemma str_includes_iff: "str_includes s k \<longleftrightarrow> (\<exists>p q. s = p @ k @ q)"
proof (induction s)
  case Nil
  then show ?case by auto
next
  case (Cons c s)
  show ?case
  proof
    assume "str_includes (c # s) k"
    then consider "prefix k (c # s)" | "str_includes s k" by auto
    then show "\<exists>p q. c # s = p @ k @ q"
    proof cases
      case 1
      then obtain q where "c # s = k @ q" by (auto simp: prefix_def)
      then have "c # s = [] @ k @ q" by simp
      then show ?thesis by blast
    next
      case 2
      with Cons.IH obtain p q where "s = p @ k @ q" by blast
      then have "c # s = (c # p) @ k @ q" by simp
      then show ?thesis by blast
    qed
  next
    assume "\<exists>p q. c # s = p @ k @ q"
    then obtain p q where pq: "c # s = p @ k @ q" by blast
    show "str_includes (c # s) k"
    proof (cases p)
      case Nil
      with pq have "prefix k (c # s)" by (simp add: prefix_def)
      then show ?thesis by simp
    next
      case (Cons d p')
      with pq have "s = p' @ k @ q" by simp
      with Cons.IH have "str_includes s k" by blast
      then show ?thesis by simp
    qed
  qed
qed

lemma str_includes_map: "str_includes s k \<Longrightarrow> str_includes (map f s) (map f k)"
  unfolding str_includes_iff by (metis map_append)

lemma str_includes_trans: "str_includes s k \<Longrightarrow> str_includes k j \<Longrightarrow> str_includes s j"
  unfolding str_includes_iff by (metis append.assoc)

section \<open>Properties of the adapter and the push dispatcher\<close>

lemma git_fst: "fst (git run a s) = git_result_of (fst (run a (world s)))"
  by (simp add: git_def split_def Let_def)

lemma git_snd: "snd (git run a s) = s\<lparr> world := snd (run a (world s)), calls := calls s @ [a] \<rparr>"
  by (simp add: git_def split_def Let_def)


lemmas io_simps = git_fst git_snd log_ok_def info_def warn_def err_def

lemma isNoUpstream_sublist:
  "isNoUpstream e \<longleftrightarrow> sublist ''no upstream'' e \<or> sublist ''has no upstream'' e"
  by (simp add: isNoUpstream_def str_includes_iff sublist_def)

lemma isRejected_sublist:
  "isRejected e \<longleftrightarrow>
     sublist ''fetch first'' (toLowerCase e) \<or> sublist ''non-fast-forward'' (toLowerCase e)
     \<or> sublist ''rejected'' (toLowerCase e)"
  by (simp add: isRejected_def str_includes_iff sublist_def)

lemma has_no_upstream_key: "str_includes ''has no upstream'' ''no upstream''"
  by simp

lemma isNoUpstream_short: "isNoUpstream e \<longleftrightarrow> str_includes e ''no upstream''"
  unfolding isNoUpstream_def using str_includes_trans [OF _ has_no_upstream_key] by blast

lemma lower_REJECTED: "toLowerCase ''REJECTED'' = ''rejected''"
  by code_simp

lemma isRejected_upper: "str_includes e ''REJECTED'' \<Longrightarrow> isRejected e"
proof -
  assume "str_includes e ''REJECTED''"
  then have "str_includes (map lower_char e) (map lower_char ''REJECTED'')"
    by (rule str_includes_map)
  then have "str_includes (toLowerCase e) ''rejected''"
    using lower_REJECTED by (simp only: toLowerCase_def)
  then show ?thesis by (simp add: isRejected_def)
qed

text \<open>
  Claim C8. A forced push runs one subprocess, \<^verbatim>\<open>git push --force origin <branch>\<close>, and
  nothing after it: the calls made are exactly that one, the world is the one that
  subprocess left, and the value returned is whether it exited with status 0. Neither
  outcome leads to a plain push, an upstream-setting push or a rebase.
\<close>

theorem push_force_terminal:
  "calls (snd (push run b True s)) = calls s @ [[''push'', ''--force'', ''origin'', b]]
   \<and> world (snd (push run b True s)) = snd (run [''push'', ''--force'', ''origin'', b] (world s))
   \<and> fst (push run b True s)
       = ok (git_result_of (fst (run [''push'', ''--force'', ''origin'', b] (world s))))"
  by (simp add: push_def Let_def split_def io_simps)

theorem push_force_terminal_witness:
  "calls (snd (push replay ''main'' True (start [exited 1 [] ''remote: denied'', exited 0 [] []])))
     = [[''push'', ''--force'', ''origin'', ''main'']]
   \<and> world (snd (push replay ''main'' True (start [exited 1 [] ''remote: denied'', exited 0 [] []])))
     = [exited 0 [] []]
   \<and> fst (push replay ''main'' True (start [exited 1 [] ''remote: denied'', exited 0 [] []])) = False"
  using push_force_terminal [of replay "''main''" "start [exited 1 [] ''remote: denied'', exited 0 [] []]"]
  by (simp add: replay_def start_def exited_def git_result_of_def)

text \<open>
  Claim C1. When the plain push (the push of a call that is not forced; a forced push is
  never classified) fails and its error text passes both tests, the one for a missing
  upstream and the one for a rejection, the dispatcher takes the upstream path:
  after the plain push it runs the upstream-setting push and nothing else, so no
  \<^verbatim>\<open>pull --rebase\<close> is among the calls, and it returns the outcome of that second push.
\<close>

theorem push_no_upstream_first:
  assumes first: "run [''push'', ''origin'', b] (world s) = (r1, w1)"
    and failed: "\<not> ok (git_result_of r1)"
    and nu: "isNoUpstream (stderr (git_result_of r1))"
    and rj: "isRejected (stderr (git_result_of r1))"
    and retry: "run [''push'', ''--set-upstream'', ''origin'', b] w1 = (r2, w2)"
  shows "calls (snd (push run b False s))
           = calls s @ [[''push'', ''origin'', b], [''push'', ''--set-upstream'', ''origin'', b]]
         \<and> [''pull'', ''--rebase'', ''origin'', b]
             \<notin> set (drop (length (calls s)) (calls (snd (push run b False s))))
         \<and> world (snd (push run b False s)) = w2
         \<and> fst (push run b False s) = ok (git_result_of r2)"
  using assms by (simp add: push_def Let_def split_def io_simps)

theorem push_no_upstream_first_witness:
  "isNoUpstream ''! [rejected] dev -> dev (fetch first); the branch has no upstream''
   \<and> isRejected ''! [rejected] dev -> dev (fetch first); the branch has no upstream''
   \<and> calls (snd (push replay ''dev'' False
        (start [exited 1 [] ''! [rejected] dev -> dev (fetch first); the branch has no upstream'',
                exited 0 [] [], exited 0 [] []])))
       = [[''push'', ''origin'', ''dev''], [''push'', ''--set-upstream'', ''origin'', ''dev'']]
   \<and> world (snd (push replay ''dev'' False
        (start [exited 1 [] ''! [rejected] dev -> dev (fetch first); the branch has no upstream'',
                exited 0 [] [], exited 0 [] []])))
       = [exited 0 [] []]
   \<and> fst (push replay ''dev'' False
        (start [exited 1 [] ''! [rejected] dev -> dev (fetch first); the branch has no upstream'',
                exited 0 [] [], exited 0 [] []])) = True"
proof -
  let ?e = "''! [rejected] dev -> dev (fetch first); the branch has no upstream''"
  let ?r1 = "exited 1 [] ?e"
  let ?r2 = "exited 0 [] []"
  let ?s = "start [?r1, ?r2, exited 0 [] []]"
  have e: "stderr (git_result_of ?r1) = ?e"
    by code_simp
  have h1: "replay [''push'', ''origin'', ''dev''] (world ?s) = (?r1, [?r2, exited 0 [] []])"
    by (simp add: replay_def start_def)
  have h2: "\<not> ok (git_result_of ?r1)"
    by (simp add: git_result_of_def exited_def)
  have n: "isNoUpstream ?e"
    by code_simp
  have r: "isRejected ?e"
    by code_simp
  have h3: "isNoUpstream (stderr (git_result_of ?r1))"
    unfolding e by (rule n)
  have h4: "isRejected (stderr (git_result_of ?r1))"
    unfolding e by (rule r)
  have h5: "replay [''push'', ''--set-upstream'', ''origin'', ''dev''] [?r2, exited 0 [] []]
              = (?r2, [exited 0 [] []])"
    by (simp add: replay_def)
  have h6: "ok (git_result_of ?r2)"
    by (simp add: git_result_of_def exited_def)
  show ?thesis
    using push_no_upstream_first [OF h1 h2 h3 h4 h5] n r h6 by (simp add: start_def)
qed

text \<open>
  Claim C2. When the plain push of a push that is not forced fails with the error text
  \<^verbatim>\<open>fatal: The current branch has no upstream branch\<close>, the dispatcher runs
  \<^verbatim>\<open>push --set-upstream origin <branch>\<close> once and stops: the calls are the plain push and
  that retry, whether the retry succeeds or fails, and its outcome is the value returned
  and the last line printed.
\<close>

theorem push_no_upstream_once:
  assumes first: "run [''push'', ''origin'', b] (world s) = (r1, w1)"
    and failed: "\<not> ok (git_result_of r1)"
    and msg: "stderr (git_result_of r1) = ''fatal: The current branch has no upstream branch''"
    and retry: "run [''push'', ''--set-upstream'', ''origin'', b] w1 = (r2, w2)"
  shows "calls (snd (push run b False s))
           = calls s @ [[''push'', ''origin'', b], [''push'', ''--set-upstream'', ''origin'', b]]
         \<and> world (snd (push run b False s)) = w2
         \<and> fst (push run b False s) = ok (git_result_of r2)
         \<and> console (snd (push run b False s))
             = console s
               @ [Info (''Pushing to origin/'' @ b @ ''...''),
                  Info (''New branch '' @ emdash @ '' setting upstream automatically...''),
                  if ok (git_result_of r2)
                  then Ok (''Pushed and upstream set for origin/'' @ b)
                  else Err (''Failed to set upstream: '' @ stderr (git_result_of r2))]"
proof -
  have "isNoUpstream ''fatal: The current branch has no upstream branch''"
    by (simp add: isNoUpstream_def)
  with assms show ?thesis
    by (simp add: push_def Let_def split_def io_simps)
qed

theorem push_no_upstream_once_witness:
  "replay [''push'', ''origin'', ''dev'']
      (world (start [exited 128 [] (''fatal: The current branch has no upstream branch'' @ [CHR 0x0A]),
                     exited 1 [] ''remote: denied'', exited 0 [] []]))
     = (exited 128 [] (''fatal: The current branch has no upstream branch'' @ [CHR 0x0A]),
        [exited 1 [] ''remote: denied'', exited 0 [] []])
   \<and> \<not> ok (git_result_of (exited 128 [] (''fatal: The current branch has no upstream branch'' @ [CHR 0x0A])))
   \<and> stderr (git_result_of (exited 128 [] (''fatal: The current branch has no upstream branch'' @ [CHR 0x0A])))
       = ''fatal: The current branch has no upstream branch''
   \<and> calls (snd (push replay ''dev'' False
        (start [exited 128 [] (''fatal: The current branch has no upstream branch'' @ [CHR 0x0A]),
                exited 1 [] ''remote: denied'', exited 0 [] []])))
       = [[''push'', ''origin'', ''dev''], [''push'', ''--set-upstream'', ''origin'', ''dev'']]
   \<and> world (snd (push replay ''dev'' False
        (start [exited 128 [] (''fatal: The current branch has no upstream branch'' @ [CHR 0x0A]),
                exited 1 [] ''remote: denied'', exited 0 [] []])))
       = [exited 0 [] []]
   \<and> fst (push replay ''dev'' False
        (start [exited 128 [] (''fatal: The current branch has no upstream branch'' @ [CHR 0x0A]),
                exited 1 [] ''remote: denied'', exited 0 [] []])) = False"
proof -
  let ?r1 = "exited 128 [] (''fatal: The current branch has no upstream branch'' @ [CHR 0x0A])"
  let ?r2 = "exited 1 [] ''remote: denied''"
  let ?s = "start [?r1, ?r2, exited 0 [] []]"
  have h1: "replay [''push'', ''origin'', ''dev''] (world ?s) = (?r1, [?r2, exited 0 [] []])"
    by (simp add: replay_def start_def)
  have h2: "\<not> ok (git_result_of ?r1)"
    by (simp add: git_result_of_def exited_def)
  have h3: "stderr (git_result_of ?r1) = ''fatal: The current branch has no upstream branch''"
    by code_simp
  have h4: "replay [''push'', ''--set-upstream'', ''origin'', ''dev''] [?r2, exited 0 [] []]
              = (?r2, [exited 0 [] []])"
    by (simp add: replay_def)
  have h5: "\<not> ok (git_result_of ?r2)"
    by (simp add: git_result_of_def exited_def)
  show ?thesis
    using push_no_upstream_once [OF h1 h2 h3 h4] h1 h2 h3 h5 by (simp add: start_def)
qed

text \<open>
  Claim C3. When the plain push of a push that is not forced fails with the error text
  \<^verbatim>\<open>! [rejected] main -> main (non-fast-forward)\<close>, which does not pass the test for a
  missing upstream, the dispatcher runs \<^verbatim>\<open>pull --rebase origin <branch>\<close> once. If the
  rebase fails, it prints the error line and the six lines of instructions for resolving
  by hand, returns false and runs no further subprocess. If the rebase succeeds, it runs the plain push once more and
  returns the outcome of that push, with no subprocess after it.
\<close>

theorem push_rejected_rebase_once:
  assumes first: "run [''push'', ''origin'', b] (world s) = (r1, w1)"
    and failed: "\<not> ok (git_result_of r1)"
    and msg: "stderr (git_result_of r1) = ''! [rejected] main -> main (non-fast-forward)''"
    and rebase: "run [''pull'', ''--rebase'', ''origin'', b] w1 = (r2, w2)"
    and retry: "run [''push'', ''origin'', b] w2 = (r3, w3)"
  shows "(\<not> ok (git_result_of r2) \<longrightarrow>
            calls (snd (push run b False s))
              = calls s @ [[''push'', ''origin'', b], [''pull'', ''--rebase'', ''origin'', b]]
            \<and> world (snd (push run b False s)) = w2
            \<and> fst (push run b False s) = False
            \<and> console (snd (push run b False s))
                = console s
                  @ [Info (''Pushing to origin/'' @ b @ ''...''),
                     Info (''Remote has new commits '' @ emdash @ '' rebasing automatically...'')]
                  @ [Err (''Auto-rebase failed '' @ emdash @ '' conflicts need manual resolution.''),
                     Info ''Your repo is in rebase state. To resolve:'',
                     Info ''  1. Open conflicted files and fix the markers'',
                     Info ''  2. git add .'',
                     Info ''  3. git rebase --continue'',
                     Info (''  4. git push origin '' @ b),
                     Info ''  Or to cancel: git rebase --abort''])
       \<and> (ok (git_result_of r2) \<longrightarrow>
            calls (snd (push run b False s))
              = calls s @ [[''push'', ''origin'', b], [''pull'', ''--rebase'', ''origin'', b],
                           [''push'', ''origin'', b]]
            \<and> world (snd (push run b False s)) = w3
            \<and> fst (push run b False s) = ok (git_result_of r3)
            \<and> console (snd (push run b False s))
                = console s
                  @ [Info (''Pushing to origin/'' @ b @ ''...''),
                     Info (''Remote has new commits '' @ emdash @ '' rebasing automatically...''),
                     if ok (git_result_of r3)
                     then Ok (''Pushed to origin/'' @ b @ '' after rebase.'')
                     else Err (''Push failed after rebase: '' @ stderr (git_result_of r3))])"
proof -
  have "\<not> isNoUpstream ''! [rejected] main -> main (non-fast-forward)''"
    by (simp add: isNoUpstream_def)
  moreover have "isRejected ''! [rejected] main -> main (non-fast-forward)''"
    by code_simp
  ultimately show ?thesis using assms
    by (simp add: push_def Let_def split_def io_simps)
qed

theorem push_rejected_rebase_once_witness:
  "stderr (git_result_of (exited 1 [] ''! [rejected] main -> main (non-fast-forward)''))
     = ''! [rejected] main -> main (non-fast-forward)''
   \<and> push replay ''main'' False
        (start [exited 1 [] ''! [rejected] main -> main (non-fast-forward)'',
                exited 1 [] ''CONFLICT (content)'', exited 0 [] []])
       = (False,
          \<lparr> world = [exited 0 [] []],
            calls = [[''push'', ''origin'', ''main''], [''pull'', ''--rebase'', ''origin'', ''main'']],
            console = [Info ''Pushing to origin/main...'',
                       Info (''Remote has new commits '' @ emdash @ '' rebasing automatically...''),
                       Err (''Auto-rebase failed '' @ emdash @ '' conflicts need manual resolution.''),
                       Info ''Your repo is in rebase state. To resolve:'',
                       Info ''  1. Open conflicted files and fix the markers'',
                       Info ''  2. git add .'',
                       Info ''  3. git rebase --continue'',
                       Info ''  4. git push origin main'',
                       Info ''  Or to cancel: git rebase --abort''] \<rparr>)
   \<and> calls (snd (push replay ''main'' False
        (start [exited 1 [] ''! [rejected] main -> main (non-fast-forward)'',
                exited 0 [] [], exited 1 [] ''remote: denied'', exited 0 [] []])))
       = [[''push'', ''origin'', ''main''], [''pull'', ''--rebase'', ''origin'', ''main''],
          [''push'', ''origin'', ''main'']]
   \<and> world (snd (push replay ''main'' False
        (start [exited 1 [] ''! [rejected] main -> main (non-fast-forward)'',
                exited 0 [] [], exited 1 [] ''remote: denied'', exited 0 [] []])))
       = [exited 0 [] []]
   \<and> fst (push replay ''main'' False
        (start [exited 1 [] ''! [rejected] main -> main (non-fast-forward)'',
                exited 0 [] [], exited 1 [] ''remote: denied'', exited 0 [] []])) = False
   \<and> console (snd (push replay ''main'' False
        (start [exited 1 [] ''! [rejected] main -> main (non-fast-forward)'',
                exited 0 [] [], exited 1 [] ''remote: denied'', exited 0 [] []])))
       = [Info ''Pushing to origin/main...'',
          Info (''Remote has new commits '' @ emdash @ '' rebasing automatically...''),
          Err ''Push failed after rebase: remote: denied'']"
proof -
  let ?r1 = "exited 1 [] ''! [rejected] main -> main (non-fast-forward)''"
  let ?bad = "exited 1 [] ''CONFLICT (content)''"
  let ?good = "exited 0 [] []"
  let ?denied = "exited 1 [] ''remote: denied''"
  let ?s = "start [?r1, ?bad, ?good]"
  let ?t = "start [?r1, ?good, ?denied, ?good]"
  have e: "stderr (git_result_of ?r1) = ''! [rejected] main -> main (non-fast-forward)''"
    by code_simp
  have f: "\<not> ok (git_result_of ?r1)"
    by (simp add: git_result_of_def exited_def)
  have a1: "replay [''push'', ''origin'', ''main''] (world ?s) = (?r1, [?bad, ?good])"
    by (simp add: replay_def start_def)
  have a2: "replay [''pull'', ''--rebase'', ''origin'', ''main''] [?bad, ?good] = (?bad, [?good])"
    by (simp add: replay_def)
  have a3: "replay [''push'', ''origin'', ''main''] [?good] = (?good, [])"
    by (simp add: replay_def)
  have a4: "\<not> ok (git_result_of ?bad)"
    by (simp add: git_result_of_def exited_def)
  have b1: "replay [''push'', ''origin'', ''main''] (world ?t) = (?r1, [?good, ?denied, ?good])"
    by (simp add: replay_def start_def)
  have b2: "replay [''pull'', ''--rebase'', ''origin'', ''main''] [?good, ?denied, ?good]
              = (?good, [?denied, ?good])"
    by (simp add: replay_def)
  have b3: "replay [''push'', ''origin'', ''main''] [?denied, ?good] = (?denied, [?good])"
    by (simp add: replay_def)
  have b4: "ok (git_result_of ?good)"
    by (simp add: git_result_of_def exited_def)
  have b5: "\<not> ok (git_result_of ?denied)"
    by (simp add: git_result_of_def exited_def)
  have A: "push replay ''main'' False ?s
             = (False,
                \<lparr> world = [?good],
                  calls = [[''push'', ''origin'', ''main''], [''pull'', ''--rebase'', ''origin'', ''main'']],
                  console = [Info ''Pushing to origin/main...'',
                             Info (''Remote has new commits '' @ emdash @ '' rebasing automatically...''),
                             Err (''Auto-rebase failed '' @ emdash @ '' conflicts need manual resolution.''),
                             Info ''Your repo is in rebase state. To resolve:'',
                             Info ''  1. Open conflicted files and fix the markers'',
                             Info ''  2. git add .'',
                             Info ''  3. git rebase --continue'',
                             Info ''  4. git push origin main'',
                             Info ''  Or to cancel: git rebase --abort''] \<rparr>)"
    using push_rejected_rebase_once [OF a1 f e a2 a3] a4
    by (cases "push replay ''main'' False ?s", cases "snd (push replay ''main'' False ?s)")
       (simp add: start_def)
  have d: "stderr (git_result_of ?denied) = ''remote: denied''"
    by code_simp
  show ?thesis
    using A push_rejected_rebase_once [OF b1 f e b2 b3] b4 b5 e d by (simp add: start_def)
qed

text \<open>
  Claim C10. The test for a missing upstream looks for the lower-case keys
  \<^verbatim>\<open>no upstream\<close> and \<^verbatim>\<open>has no upstream\<close> in the error text as it is, while the test for
  a rejection looks for its three keys in the lower-cased error text. So an error text
  that has \<^verbatim>\<open>HAS NO UPSTREAM\<close> only in upper case does not pass the first test, and when
  it also has \<^verbatim>\<open>REJECTED\<close> the dispatcher takes the rebase path: the plain push is
  followed by \<^verbatim>\<open>pull --rebase\<close>, and by one more plain push when the rebase succeeds.
\<close>

theorem push_case_sensitivity:
  assumes first: "run [''push'', ''origin'', b] (world s) = (r1, w1)"
    and failed: "\<not> ok (git_result_of r1)"
    and upper: "str_includes (stderr (git_result_of r1)) ''HAS NO UPSTREAM''"
    and only: "\<not> str_includes (stderr (git_result_of r1)) ''no upstream''"
    and rej: "str_includes (stderr (git_result_of r1)) ''REJECTED''"
    and rebase: "run [''pull'', ''--rebase'', ''origin'', b] w1 = (r2, w2)"
  shows "\<not> isNoUpstream (stderr (git_result_of r1))
         \<and> isRejected (stderr (git_result_of r1))
         \<and> calls (snd (push run b False s))
             = calls s @ [[''push'', ''origin'', b], [''pull'', ''--rebase'', ''origin'', b]]
               @ (if ok (git_result_of r2) then [[''push'', ''origin'', b]] else [])
         \<and> (\<forall>e. isNoUpstream e
                  = (sublist ''no upstream'' e \<or> sublist ''has no upstream'' e))
         \<and> (\<forall>e. isRejected e
                  = (sublist ''fetch first'' (toLowerCase e)
                     \<or> sublist ''non-fast-forward'' (toLowerCase e)
                     \<or> sublist ''rejected'' (toLowerCase e)))"
proof -
  have nu: "\<not> isNoUpstream (stderr (git_result_of r1))"
    using only by (simp add: isNoUpstream_short)
  have rj: "isRejected (stderr (git_result_of r1))"
    using rej by (rule isRejected_upper)
  have "calls (snd (push run b False s))
          = calls s @ [[''push'', ''origin'', b], [''pull'', ''--rebase'', ''origin'', b]]
            @ (if ok (git_result_of r2) then [[''push'', ''origin'', b]] else [])"
    using first failed nu rj rebase by (simp add: push_def Let_def split_def io_simps)
  with nu rj show ?thesis
    using isNoUpstream_sublist isRejected_sublist by blast
qed

theorem push_case_sensitivity_witness:
  "str_includes ''fatal: THE CURRENT BRANCH HAS NO UPSTREAM BRANCH; PUSH REJECTED'' ''HAS NO UPSTREAM''
   \<and> \<not> str_includes ''fatal: THE CURRENT BRANCH HAS NO UPSTREAM BRANCH; PUSH REJECTED'' ''no upstream''
   \<and> str_includes ''fatal: THE CURRENT BRANCH HAS NO UPSTREAM BRANCH; PUSH REJECTED'' ''REJECTED''
   \<and> \<not> isNoUpstream ''fatal: THE CURRENT BRANCH HAS NO UPSTREAM BRANCH; PUSH REJECTED''
   \<and> isRejected ''fatal: THE CURRENT BRANCH HAS NO UPSTREAM BRANCH; PUSH REJECTED''
   \<and> calls (snd (push replay ''main'' False
        (start [exited 1 [] ''fatal: THE CURRENT BRANCH HAS NO UPSTREAM BRANCH; PUSH REJECTED'',
                exited 0 [] [], exited 0 [] []])))
       = [[''push'', ''origin'', ''main''], [''pull'', ''--rebase'', ''origin'', ''main''],
          [''push'', ''origin'', ''main'']]"
proof -
  let ?e = "''fatal: THE CURRENT BRANCH HAS NO UPSTREAM BRANCH; PUSH REJECTED''"
  let ?r1 = "exited 1 [] ?e"
  let ?good = "exited 0 [] []"
  let ?s = "start [?r1, ?good, ?good]"
  have e: "stderr (git_result_of ?r1) = ?e"
    by code_simp
  have h1: "replay [''push'', ''origin'', ''main''] (world ?s) = (?r1, [?good, ?good])"
    by (simp add: replay_def start_def)
  have h2: "\<not> ok (git_result_of ?r1)"
    by (simp add: git_result_of_def exited_def)
  have u: "str_includes ?e ''HAS NO UPSTREAM''"
    by code_simp
  have l: "\<not> str_includes ?e ''no upstream''"
    by code_simp
  have r: "str_includes ?e ''REJECTED''"
    by code_simp
  have h3: "str_includes (stderr (git_result_of ?r1)) ''HAS NO UPSTREAM''"
    unfolding e by (rule u)
  have h4: "\<not> str_includes (stderr (git_result_of ?r1)) ''no upstream''"
    unfolding e by (rule l)
  have h5: "str_includes (stderr (git_result_of ?r1)) ''REJECTED''"
    unfolding e by (rule r)
  have h6: "replay [''pull'', ''--rebase'', ''origin'', ''main''] [?good, ?good] = (?good, [?good])"
    by (simp add: replay_def)
  have g: "ok (git_result_of ?good)"
    by (simp add: git_result_of_def exited_def)
  note T = push_case_sensitivity [OF h1 h2 h3 h4 h5 h6]
  have c1: "\<not> isNoUpstream (stderr (git_result_of ?r1))"
    using T by (rule conjunct1)
  have c2: "isRejected (stderr (git_result_of ?r1))"
    using T by (elim conjE)
  have c3: "calls (snd (push replay ''main'' False ?s))
              = calls ?s @ [[''push'', ''origin'', ''main''], [''pull'', ''--rebase'', ''origin'', ''main'']]
                @ (if ok (git_result_of ?good) then [[''push'', ''origin'', ''main'']] else [])"
    using T by (elim conjE)
  show ?thesis
    using c1 c2 c3 u l r g by (simp add: e start_def)
qed

section \<open>Properties of branch switching\<close>

text \<open>
  Claim C9, as amended. \<^verbatim>\<open>switchBranch(name)\<close> first runs \<^verbatim>\<open>git checkout <name>\<close>. If that
  fails it runs \<^verbatim>\<open>git checkout -b <name>\<close>. If that fails too it prints the failure with
  the error text of the second attempt and returns what a new
  \<^verbatim>\<open>git branch --show-current\<close> reports then: its trimmed output, or \<^verbatim>\<open>main\<close> when that
  query fails. That is the branch \<^verbatim>\<open>getCurrentBranch\<close> reported before the attempt
  whenever the external tool keeps to this: a checkout that fails leaves the answer of
  \<^verbatim>\<open>git branch --show-current\<close> as it was.
\<close>

theorem switchBranch_fallback:
  assumes before: "run [''branch'', ''--show-current''] (world s) = (r0, w0)"
    and co: "run [''checkout'', name] (world s) = (r1, w1)"
    and cr: "run [''checkout'', ''-b'', name] w1 = (r2, w2)"
    and after: "run [''branch'', ''--show-current''] w2 = (r3, w3)"
  shows "getCurrentBranch run s
           = (if ok (git_result_of r0) then stdout (git_result_of r0) else ''main'',
              s\<lparr> world := w0, calls := calls s @ [[''branch'', ''--show-current'']] \<rparr>)
       \<and> (ok (git_result_of r1) \<longrightarrow>
            switchBranch run name s
              = (name,
                 s\<lparr> world := w1, calls := calls s @ [[''checkout'', name]],
                    console := console s @ [Ok (''Switched to branch: '' @ name)] \<rparr>))
       \<and> (\<not> ok (git_result_of r1) \<and> ok (git_result_of r2) \<longrightarrow>
            switchBranch run name s
              = (name,
                 s\<lparr> world := w2,
                    calls := calls s @ [[''checkout'', name], [''checkout'', ''-b'', name]],
                    console := console s
                      @ [Info (''Branch '' @ [CHR 0x27] @ name @ [CHR 0x27] @ '' not found ''
                               @ emdash @ '' creating it...''),
                         Ok (''Created and switched to: '' @ name)] \<rparr>))
       \<and> (\<not> ok (git_result_of r1) \<and> \<not> ok (git_result_of r2) \<longrightarrow>
            switchBranch run name s
              = (if ok (git_result_of r3) then stdout (git_result_of r3) else ''main'',
                 s\<lparr> world := w3,
                    calls := calls s @ [[''checkout'', name], [''checkout'', ''-b'', name],
                                        [''branch'', ''--show-current'']],
                    console := console s
                      @ [Info (''Branch '' @ [CHR 0x27] @ name @ [CHR 0x27] @ '' not found ''
                               @ emdash @ '' creating it...''),
                         Err (''Could not switch/create branch '' @ [CHR 0x27] @ name
                              @ [CHR 0x27] @ '': '' @ stderr (git_result_of r2))] \<rparr>)
            \<and> ((\<forall>args w.
                   \<not> ok (git_result_of (fst (run (''checkout'' # args) w))) \<longrightarrow>
                   git_result_of
                     (fst (run [''branch'', ''--show-current''] (snd (run (''checkout'' # args) w))))
                   = git_result_of (fst (run [''branch'', ''--show-current''] w)))
                \<longrightarrow> fst (switchBranch run name s) = fst (getCurrentBranch run s)))"
proof -
  have cur: "getCurrentBranch run s
           = (if ok (git_result_of r0) then stdout (git_result_of r0) else ''main'',
              s\<lparr> world := w0, calls := calls s @ [[''branch'', ''--show-current'']] \<rparr>)"
    using before by (simp add: getCurrentBranch_def Let_def split_def io_simps)
  have ok1: "ok (git_result_of r1) \<longrightarrow>
            switchBranch run name s
              = (name,
                 s\<lparr> world := w1, calls := calls s @ [[''checkout'', name]],
                    console := console s @ [Ok (''Switched to branch: '' @ name)] \<rparr>)"
    using co by (simp add: switchBranch_def Let_def split_def io_simps)
  have ok2: "\<not> ok (git_result_of r1) \<and> ok (git_result_of r2) \<longrightarrow>
            switchBranch run name s
              = (name,
                 s\<lparr> world := w2,
                    calls := calls s @ [[''checkout'', name], [''checkout'', ''-b'', name]],
                    console := console s
                      @ [Info (''Branch '' @ [CHR 0x27] @ name @ [CHR 0x27] @ '' not found ''
                               @ emdash @ '' creating it...''),
                         Ok (''Created and switched to: '' @ name)] \<rparr>)"
    using co cr by (simp add: switchBranch_def Let_def split_def io_simps)
  have bad: "switchBranch run name s
              = (if ok (git_result_of r3) then stdout (git_result_of r3) else ''main'',
                 s\<lparr> world := w3,
                    calls := calls s @ [[''checkout'', name], [''checkout'', ''-b'', name],
                                        [''branch'', ''--show-current'']],
                    console := console s
                      @ [Info (''Branch '' @ [CHR 0x27] @ name @ [CHR 0x27] @ '' not found ''
                               @ emdash @ '' creating it...''),
                         Err (''Could not switch/create branch '' @ [CHR 0x27] @ name
                              @ [CHR 0x27] @ '': '' @ stderr (git_result_of r2))] \<rparr>)"
    if "\<not> ok (git_result_of r1)" and "\<not> ok (git_result_of r2)"
    using that co cr after
    by (simp add: switchBranch_def getCurrentBranch_def Let_def split_def io_simps)
  have frame: "fst (switchBranch run name s) = fst (getCurrentBranch run s)"
    if f1: "\<not> ok (git_result_of r1)" and f2: "\<not> ok (git_result_of r2)"
      and keep: "\<forall>args w.
                   \<not> ok (git_result_of (fst (run (''checkout'' # args) w))) \<longrightarrow>
                   git_result_of
                     (fst (run [''branch'', ''--show-current''] (snd (run (''checkout'' # args) w))))
                   = git_result_of (fst (run [''branch'', ''--show-current''] w))"
  proof -
    have "git_result_of (fst (run [''branch'', ''--show-current''] w1))
            = git_result_of (fst (run [''branch'', ''--show-current''] (world s)))"
      using keep [rule_format, of "[name]" "world s"] co f1 by simp
    moreover have "git_result_of (fst (run [''branch'', ''--show-current''] w2))
            = git_result_of (fst (run [''branch'', ''--show-current''] w1))"
      using keep [rule_format, of "[''-b'', name]" w1] cr f2 by simp
    ultimately have "git_result_of r3 = git_result_of r0"
      using before after by simp
    then show ?thesis
      using bad [OF f1 f2] cur by simp
  qed
  show ?thesis
    using cur ok1 ok2 bad frame by presburger
qed

text \<open>The sample repository keeps to it.\<close>

lemma sample_git_keeps:
  "\<forall>args w.
     \<not> ok (git_result_of (fst (sample_git (''checkout'' # args) w))) \<longrightarrow>
     git_result_of (fst (sample_git [''branch'', ''--show-current''] (snd (sample_git (''checkout'' # args) w))))
     = git_result_of (fst (sample_git [''branch'', ''--show-current''] w))"
  by (auto simp: sample_git_def exited_def git_result_of_def split: list.splits)

theorem switchBranch_fallback_witness:
  "fst (getCurrentBranch sample_git
          (start \<lparr> current = ''develop'', branches = [''main'', ''develop''] \<rparr>)) = ''develop''
   \<and> fst (switchBranch sample_git ''main''
             (start \<lparr> current = ''develop'', branches = [''main'', ''develop''] \<rparr>)) = ''main''
   \<and> calls (snd (switchBranch sample_git ''main''
             (start \<lparr> current = ''develop'', branches = [''main'', ''develop''] \<rparr>)))
       = [[''checkout'', ''main'']]
   \<and> fst (switchBranch sample_git ''feature/x''
             (start \<lparr> current = ''develop'', branches = [''main'', ''develop''] \<rparr>)) = ''feature/x''
   \<and> calls (snd (switchBranch sample_git ''feature/x''
             (start \<lparr> current = ''develop'', branches = [''main'', ''develop''] \<rparr>)))
       = [[''checkout'', ''feature/x''], [''checkout'', ''-b'', ''feature/x'']]
   \<and> switchBranch sample_git ''my branch''
        (start \<lparr> current = ''develop'', branches = [''main'', ''develop''] \<rparr>)
       = (''develop'',
          \<lparr> world = \<lparr> current = ''develop'', branches = [''main'', ''develop''] \<rparr>,
            calls = [[''checkout'', ''my branch''], [''checkout'', ''-b'', ''my branch''],
                     [''branch'', ''--show-current'']],
            console = [Info (''Branch 'my branch' not found '' @ emdash @ '' creating it...''),
                       Err ''Could not switch/create branch 'my branch': fatal: not a valid new branch''] \<rparr>)
   \<and> fst (switchBranch replay ''dev''
             (start [exited 1 [] ''error: pathspec'', exited 128 [] ''fatal: a branch exists'',
                     exited 129 [] ''error: unknown option'', exited 0 [] []])) = ''main''
   \<and> world (snd (switchBranch replay ''dev''
             (start [exited 1 [] ''error: pathspec'', exited 128 [] ''fatal: a branch exists'',
                     exited 129 [] ''error: unknown option'', exited 0 [] []]))) = [exited 0 [] []]"
proof -
  let ?w = "\<lparr> current = ''develop'', branches = [''main'', ''develop''] \<rparr>"
  let ?s = "start ?w"
  let ?none = "exited 1 [] ''error: pathspec did not match any file(s) known to git''"
  let ?invalid = "exited 128 [] ''fatal: not a valid new branch''"
  let ?cur = "exited 0 (''develop'' @ [CHR 0x0A]) []"
  have q0: "sample_git [''branch'', ''--show-current''] (world ?s) = (?cur, ?w)"
    by (simp add: sample_git_def start_def)
  have q: "sample_git [''branch'', ''--show-current''] ?w = (?cur, ?w)"
    by (simp add: sample_git_def)
  have qm: "sample_git [''branch'', ''--show-current''] (?w\<lparr> current := ''main'' \<rparr>)
              = (exited 0 (''main'' @ [CHR 0x0A]) [], ?w\<lparr> current := ''main'' \<rparr>)"
    by (simp add: sample_git_def)
  have qf: "sample_git [''branch'', ''--show-current'']
              (?w\<lparr> current := ''feature/x'', branches := ''feature/x'' # branches ?w \<rparr>)
              = (exited 0 (''feature/x'' @ [CHR 0x0A]) [],
                 ?w\<lparr> current := ''feature/x'', branches := ''feature/x'' # branches ?w \<rparr>)"
    by (simp add: sample_git_def)
  have a1: "sample_git [''checkout'', ''main''] (world ?s)
              = (exited 0 [] ''Switched to branch main'', ?w\<lparr> current := ''main'' \<rparr>)"
    by (simp add: sample_git_def start_def)
  have a2: "sample_git [''checkout'', ''-b'', ''main''] (?w\<lparr> current := ''main'' \<rparr>)
              = (?invalid, ?w\<lparr> current := ''main'' \<rparr>)"
    by (simp add: sample_git_def)
  have a3: "ok (git_result_of (exited 0 [] ''Switched to branch main''))"
    by (simp add: git_result_of_def exited_def)
  have b1: "sample_git [''checkout'', ''feature/x''] (world ?s) = (?none, ?w)"
    by (simp add: sample_git_def start_def)
  have b2: "sample_git [''checkout'', ''-b'', ''feature/x''] ?w
              = (exited 0 [] ''Switched to a new branch feature/x'',
                 ?w\<lparr> current := ''feature/x'', branches := ''feature/x'' # branches ?w \<rparr>)"
    by (simp add: sample_git_def)
  have b3: "\<not> ok (git_result_of ?none)"
    by (simp add: git_result_of_def exited_def)
  have b4: "ok (git_result_of (exited 0 [] ''Switched to a new branch feature/x''))"
    by (simp add: git_result_of_def exited_def)
  have c1: "sample_git [''checkout'', ''my branch''] (world ?s) = (?none, ?w)"
    by (simp add: sample_git_def start_def)
  have c2: "sample_git [''checkout'', ''-b'', ''my branch''] ?w = (?invalid, ?w)"
    by (simp add: sample_git_def)
  have c3: "\<not> ok (git_result_of ?invalid)"
    by (simp add: git_result_of_def exited_def)
  have c4: "stderr (git_result_of ?invalid) = ''fatal: not a valid new branch''"
    by code_simp
  have c5: "ok (git_result_of ?cur)"
    by (simp add: git_result_of_def exited_def)
  have c6: "stdout (git_result_of ?cur) = ''develop''"
    by code_simp
  note Q = switchBranch_fallback [OF q0 c1 c2 q, THEN conjunct1]
  note A = switchBranch_fallback [OF q0 a1 a2 qm, THEN conjunct2, THEN conjunct1, rule_format, OF a3]
  note B = switchBranch_fallback [OF q0 b1 b2 qf, THEN conjunct2, THEN conjunct2, THEN conjunct1,
      rule_format, OF conjI [OF b3 b4]]
  note C = switchBranch_fallback [OF q0 c1 c2 q, THEN conjunct2, THEN conjunct2, THEN conjunct2,
      rule_format, OF conjI [OF b3 c3]]
  have C4: "fst (switchBranch sample_git ''my branch'' ?s) = fst (getCurrentBranch sample_git ?s)"
    using C sample_git_keeps by blast
  let ?p1 = "exited 1 [] ''error: pathspec''"
  let ?p2 = "exited 128 [] ''fatal: a branch exists''"
  let ?p3 = "exited 129 [] ''error: unknown option''"
  let ?t = "start [?p1, ?p2, ?p3, exited 0 [] []]"
  have d0: "replay [''branch'', ''--show-current''] (world ?t) = (?p1, [?p2, ?p3, exited 0 [] []])"
    by (simp add: replay_def start_def)
  have d1: "replay [''checkout'', ''dev''] (world ?t) = (?p1, [?p2, ?p3, exited 0 [] []])"
    by (simp add: replay_def start_def)
  have d2: "replay [''checkout'', ''-b'', ''dev''] [?p2, ?p3, exited 0 [] []]
              = (?p2, [?p3, exited 0 [] []])"
    by (simp add: replay_def)
  have d3: "replay [''branch'', ''--show-current''] [?p3, exited 0 [] []] = (?p3, [exited 0 [] []])"
    by (simp add: replay_def)
  have d4: "\<not> ok (git_result_of ?p1)" "\<not> ok (git_result_of ?p2)" "\<not> ok (git_result_of ?p3)"
    by (simp_all add: git_result_of_def exited_def)
  note D = switchBranch_fallback [OF d0 d1 d2 d3, THEN conjunct2, THEN conjunct2, THEN conjunct2,
      rule_format, OF conjI [OF d4(1) d4(2)], THEN conjunct1]
  have D': "fst (switchBranch replay ''dev'' ?t) = ''main''"
    "world (snd (switchBranch replay ''dev'' ?t)) = [exited 0 [] []]"
    unfolding D using d4(3) by simp_all
  show ?thesis
    using Q A B C [THEN conjunct1] C4 c4 c5 c6 D' by (simp add: start_def)
qed

text \<open>
  The claim as stated has the branch returned after two failures equal the branch that
  was current before the attempt. With a \<^verbatim>\<open>post-checkout\<close> hook that fails, the checkout
  of an existing branch switches to it and still exits with status 1; the creation then
  fails because the branch exists, and \<^verbatim>\<open>switchBranch\<close> returns the new branch
  \<^verbatim>\<open>dev\<close>, while \<^verbatim>\<open>main\<close> was current before.
\<close>

theorem switchBranch_requery_counterexample:
  "fst (getCurrentBranch hooked_git (start \<lparr> current = ''main'', branches = [''main'', ''dev''] \<rparr>))
     = ''main''
   \<and> \<not> ok (git_result_of (fst (hooked_git [''checkout'', ''dev'']
                                    \<lparr> current = ''main'', branches = [''main'', ''dev''] \<rparr>)))
   \<and> \<not> ok (git_result_of (fst (hooked_git [''checkout'', ''-b'', ''dev'']
                                    \<lparr> current = ''dev'', branches = [''main'', ''dev''] \<rparr>)))
   \<and> fst (switchBranch hooked_git ''dev''
             (start \<lparr> current = ''main'', branches = [''main'', ''dev''] \<rparr>)) = ''dev''
   \<and> calls (snd (switchBranch hooked_git ''dev''
             (start \<lparr> current = ''main'', branches = [''main'', ''dev''] \<rparr>)))
       = [[''checkout'', ''dev''], [''checkout'', ''-b'', ''dev''], [''branch'', ''--show-current'']]
   \<and> world (snd (switchBranch hooked_git ''dev''
             (start \<lparr> current = ''main'', branches = [''main'', ''dev''] \<rparr>)))
       = \<lparr> current = ''dev'', branches = [''main'', ''dev''] \<rparr>"
  by code_simp

section \<open>Properties of the adapter's result\<close>

lemma white_space_nonempty: "[] \<notin> set white_space"
  by (simp add: white_space_def)

lemma white_space_prefix_free: "prefix_free white_space"
  unfolding prefix_free_def by code_simp

lemma strip_start_decomp: "\<exists>us. set us \<subseteq> set ws \<and> s = concat us @ strip_start ws s"
proof (induction ws s rule: strip_start.induct)
  case (1 ws s)
  show ?case
  proof (cases "find (\<lambda>w. w \<noteq> [] \<and> prefix w s) ws")
    case None
    then have "strip_start ws s = s"
      by (simp add: strip_start.simps)
    then have "set [] \<subseteq> set ws \<and> s = concat [] @ strip_start ws s"
      by simp
    then show ?thesis by blast
  next
    case (Some w)
    then have w: "w \<in> set ws" "prefix w s"
      by (auto simp: find_Some_iff)
    from Some have eq: "strip_start ws s = strip_start ws (drop (length w) s)"
      by (simp add: strip_start.simps)
    from "1.IH" [OF Some] obtain us where
      us: "set us \<subseteq> set ws" "drop (length w) s = concat us @ strip_start ws (drop (length w) s)"
      by blast
    from w(2) have "s = w @ drop (length w) s"
      by (auto simp: prefix_def)
    with us(2) eq have "s = concat (w # us) @ strip_start ws s"
      by simp
    moreover have "set (w # us) \<subseteq> set ws"
      using w(1) us(1) by simp
    ultimately show ?thesis by blast
  qed
qed

lemma strip_start_no_prefix:
  "w \<in> set ws \<Longrightarrow> w \<noteq> [] \<Longrightarrow> \<not> prefix w (strip_start ws s)"
proof (induction ws s rule: strip_start.induct)
  case (1 ws s)
  show ?case
  proof (cases "find (\<lambda>w. w \<noteq> [] \<and> prefix w s) ws")
    case None
    then have "strip_start ws s = s"
      by (simp add: strip_start.simps)
    moreover from None "1.prems" have "\<not> prefix w s"
      by (auto simp: find_None_iff)
    ultimately show ?thesis by simp
  next
    case (Some v)
    then have "strip_start ws s = strip_start ws (drop (length v) s)"
      by (simp add: strip_start.simps)
    with "1.IH" [OF Some "1.prems"] show ?thesis by simp
  qed
qed

lemma strip_start_Nil: "strip_start ws [] = []"
proof -
  have "find (\<lambda>w. w \<noteq> [] \<and> prefix w []) ws = None"
    by (auto simp: find_None_iff)
  then show ?thesis by (simp add: strip_start.simps)
qed

lemma strip_start_concat:
  assumes pf: "prefix_free ws" and ne: "[] \<notin> set ws"
  shows "set us \<subseteq> set ws \<Longrightarrow> strip_start ws (concat us @ t) = strip_start ws t"
proof (induction us)
  case Nil
  show ?case by simp
next
  case (Cons u us)
  then have u: "u \<in> set ws" "u \<noteq> []" and rest: "set us \<subseteq> set ws"
    using ne by auto
  let ?s = "concat (u # us) @ t"
  have pu: "prefix u ?s"
    by simp
  obtain w where f: "find (\<lambda>w. w \<noteq> [] \<and> prefix w ?s) ws = Some w"
    using u pu by (cases "find (\<lambda>w. w \<noteq> [] \<and> prefix w ?s) ws") (auto simp: find_None_iff)
  then have w: "w \<in> set ws" "prefix w ?s"
    by (auto simp: find_Some_iff)
  from w(2) pu have "prefix w u \<or> prefix u w"
    by (rule prefix_same_cases)
  with pf w(1) u(1) have "w = u"
    unfolding prefix_free_def by blast
  have "strip_start ws ?s = strip_start ws (drop (length w) ?s)"
    by (subst strip_start.simps) (simp only: f option.case)
  also have "drop (length w) ?s = concat us @ t"
    using \<open>w = u\<close> by simp
  finally show ?case
    using Cons.IH [OF rest] by simp
qed


lemma trim_decomp:
  "\<exists>us vs. set us \<subseteq> set white_space \<and> set vs \<subseteq> set white_space
           \<and> s = concat us @ trim s @ concat vs"
proof -
  let ?m = "strip_start white_space s"
  obtain us where us: "set us \<subseteq> set white_space" "s = concat us @ ?m"
    using strip_start_decomp by blast
  obtain rs where rs: "set rs \<subseteq> set (map rev white_space)"
      "rev ?m = concat rs @ strip_start (map rev white_space) (rev ?m)"
    using strip_start_decomp by blast
  have "?m = rev (rev ?m)"
    by simp
  also have "\<dots> = rev (concat rs @ rev (trim s))"
    using rs(2) by (simp add: trim_def)
  also have "\<dots> = trim s @ concat (map rev (rev rs))"
    by (simp add: rev_concat)
  finally have m: "?m = trim s @ concat (map rev (rev rs))" .
  have "set (map rev (rev rs)) \<subseteq> set white_space"
    using rs(1) by auto
  with us m show ?thesis
    by metis
qed

lemma trim_no_edge:
  assumes w: "w \<in> set white_space"
  shows "\<not> prefix w (trim s) \<and> \<not> suffix w (trim s)"
proof
  let ?m = "strip_start white_space s"
  from w white_space_nonempty have ne: "w \<noteq> []"
    by auto
  obtain us vs where "s = concat us @ trim s @ concat vs"
    using trim_decomp by blast
  have m: "\<exists>q. ?m = trim s @ q"
  proof -
    obtain rs where "rev ?m = concat rs @ strip_start (map rev white_space) (rev ?m)"
      using strip_start_decomp by blast
    then have "rev (rev ?m) = rev (concat rs @ rev (trim s))"
      by (simp add: trim_def)
    then have "?m = trim s @ rev (concat rs)"
      by simp
    then show ?thesis by blast
  qed
  show "\<not> prefix w (trim s)"
  proof
    assume "prefix w (trim s)"
    with m have "prefix w ?m"
      by (auto simp: prefix_def)
    with strip_start_no_prefix [OF w ne] show False by blast
  qed
  show "\<not> suffix w (trim s)"
  proof
    assume "suffix w (trim s)"
    then have "prefix (rev w) (rev (trim s))"
      by (simp add: suffix_to_prefix)
    then have "prefix (rev w) (strip_start (map rev white_space) (rev ?m))"
      by (simp add: trim_def)
    moreover have "rev w \<in> set (map rev white_space)" "rev w \<noteq> []"
      using w ne by auto
    ultimately show False
      using strip_start_no_prefix by blast
  qed
qed

lemma trim_empty_iff:
  "trim s = [] \<longleftrightarrow> (\<exists>us. set us \<subseteq> set white_space \<and> s = concat us)"
proof
  assume e: "trim s = []"
  obtain us vs where "set us \<subseteq> set white_space" "set vs \<subseteq> set white_space"
      "s = concat us @ trim s @ concat vs"
    using trim_decomp by blast
  with e have "set (us @ vs) \<subseteq> set white_space \<and> s = concat (us @ vs)"
    by simp
  then show "\<exists>us. set us \<subseteq> set white_space \<and> s = concat us"
    by blast
next
  assume "\<exists>us. set us \<subseteq> set white_space \<and> s = concat us"
  then obtain us where us: "set us \<subseteq> set white_space" "s = concat us"
    by blast
  have "strip_start white_space (concat us @ []) = strip_start white_space []"
    using white_space_prefix_free white_space_nonempty us(1) by (rule strip_start_concat)
  then have "strip_start white_space s = []"
    using us(2) by (simp add: strip_start_Nil)
  then show "trim s = []"
    by (simp add: trim_def strip_start_Nil)
qed

text \<open>
  Claim C7, as amended. \<^verbatim>\<open>git(...)\<close> throws only when an argument contains the character
  U+0000, which \<^verbatim>\<open>spawnSync\<close> refuses with a \<^verbatim>\<open>TypeError\<close>. On every other invocation it
  returns a record whose \<^verbatim>\<open>ok\<close> is true exactly when the exit status is 0 (so every
  other status, and a missing one, gives \<^verbatim>\<open>ok:false\<close>) and whose two streams are the
  captured ones with the white space at both ends removed and nothing else. Its
  \<^verbatim>\<open>stderr\<close> is empty exactly when all the tool wrote to standard error is white space.
\<close>

theorem git_result_trimmed:
  assumes "run args (world s) = (r, w)"
  shows "((\<exists>a\<in>set args. CHR 0x00 \<in> set a) \<longrightarrow> git_adapter run args s = Inl TypeError)
       \<and> ((\<forall>a\<in>set args. CHR 0x00 \<notin> set a) \<longrightarrow>
            git_adapter run args s = Inr (git run args s))
       \<and> git run args s
           = (\<lparr> ok = (status r = Some 0),
                stdout = trim (or_empty (raw_stdout r)),
                stderr = trim (or_empty (raw_stderr r)) \<rparr>,
              s\<lparr> world := w, calls := calls s @ [args] \<rparr>)
       \<and> (status r \<noteq> Some 0 \<longrightarrow> \<not> ok (fst (git run args s)))
       \<and> (\<forall>x\<in>set white_space.
              \<not> prefix x (stdout (fst (git run args s)))
              \<and> \<not> suffix x (stdout (fst (git run args s)))
              \<and> \<not> prefix x (stderr (fst (git run args s)))
              \<and> \<not> suffix x (stderr (fst (git run args s))))
       \<and> (\<exists>us vs. set us \<subseteq> set white_space \<and> set vs \<subseteq> set white_space
                   \<and> or_empty (raw_stdout r)
                       = concat us @ stdout (fst (git run args s)) @ concat vs)
       \<and> (\<exists>us vs. set us \<subseteq> set white_space \<and> set vs \<subseteq> set white_space
                   \<and> or_empty (raw_stderr r)
                       = concat us @ stderr (fst (git run args s)) @ concat vs)
       \<and> (stderr (fst (git run args s)) = []
            \<longleftrightarrow> (\<exists>us. set us \<subseteq> set white_space \<and> or_empty (raw_stderr r) = concat us))"
proof -
  have res: "git run args s
           = (\<lparr> ok = (status r = Some 0),
                stdout = trim (or_empty (raw_stdout r)),
                stderr = trim (or_empty (raw_stderr r)) \<rparr>,
              s\<lparr> world := w, calls := calls s @ [args] \<rparr>)"
    using assms by (simp add: git_def git_result_of_def)
  have a: "(\<exists>a\<in>set args. CHR 0x00 \<in> set a) \<longrightarrow> git_adapter run args s = Inl TypeError"
    by (simp add: git_adapter_def)
  have b: "(\<forall>a\<in>set args. CHR 0x00 \<notin> set a) \<longrightarrow> git_adapter run args s = Inr (git run args s)"
    by (simp add: git_adapter_def)
  have c: "status r \<noteq> Some 0 \<longrightarrow> \<not> ok (fst (git run args s))"
    unfolding res by simp
  have d: "\<forall>x\<in>set white_space.
              \<not> prefix x (stdout (fst (git run args s)))
              \<and> \<not> suffix x (stdout (fst (git run args s)))
              \<and> \<not> prefix x (stderr (fst (git run args s)))
              \<and> \<not> suffix x (stderr (fst (git run args s)))"
    unfolding res using trim_no_edge by simp
  have e: "\<exists>us vs. set us \<subseteq> set white_space \<and> set vs \<subseteq> set white_space
                   \<and> or_empty (raw_stdout r)
                       = concat us @ stdout (fst (git run args s)) @ concat vs"
    unfolding res using trim_decomp [of "or_empty (raw_stdout r)"] by simp
  have f: "\<exists>us vs. set us \<subseteq> set white_space \<and> set vs \<subseteq> set white_space
                   \<and> or_empty (raw_stderr r)
                       = concat us @ stderr (fst (git run args s)) @ concat vs"
    unfolding res using trim_decomp [of "or_empty (raw_stderr r)"] by simp
  have g: "stderr (fst (git run args s)) = []
            \<longleftrightarrow> (\<exists>us. set us \<subseteq> set white_space \<and> or_empty (raw_stderr r) = concat us)"
    unfolding res using trim_empty_iff [of "or_empty (raw_stderr r)"] by simp
  show ?thesis
    by (intro conjI a b res c d e f g)
qed

theorem git_result_trimmed_witness:
  "replay [''status'', ''--short'']
      (world (start [exited 128 ('' M bin/gitauto.js'' @ [CHR 0xC2, CHR 0xA0, CHR 0x0A])
                       (''warning: not a git repository'' @ [CHR 0x0A])]))
     = (exited 128 ('' M bin/gitauto.js'' @ [CHR 0xC2, CHR 0xA0, CHR 0x0A])
          (''warning: not a git repository'' @ [CHR 0x0A]), [])
   \<and> git_adapter replay [''status'', ''--short'']
        (start [exited 128 ('' M bin/gitauto.js'' @ [CHR 0xC2, CHR 0xA0, CHR 0x0A])
                  (''warning: not a git repository'' @ [CHR 0x0A])])
       = Inr (\<lparr> ok = False, stdout = ''M bin/gitauto.js'',
                 stderr = ''warning: not a git repository'' \<rparr>,
              \<lparr> world = [], calls = [[''status'', ''--short'']], console = [] \<rparr>)
   \<and> git_adapter replay [''add'', [CHR ''a'', CHR 0x00]]
        (start [exited 128 ('' M bin/gitauto.js'' @ [CHR 0xC2, CHR 0xA0, CHR 0x0A])
                  (''warning: not a git repository'' @ [CHR 0x0A])])
       = Inl TypeError"
proof -
  let ?r = "exited 128 ('' M bin/gitauto.js'' @ [CHR 0xC2, CHR 0xA0, CHR 0x0A])
              (''warning: not a git repository'' @ [CHR 0x0A])"
  have h: "replay [''status'', ''--short''] (world (start [?r])) = (?r, [])"
    by (simp add: replay_def start_def)
  have k: "replay [''add'', [CHR ''a'', CHR 0x00]] (world (start [?r])) = (?r, [])"
    by (simp add: replay_def start_def)
  have t: "trim (''warning: not a git repository'' @ [CHR 0x0A]) = ''warning: not a git repository''"
    by code_simp
  have u: "trim ('' M bin/gitauto.js'' @ [CHR 0xC2, CHR 0xA0, CHR 0x0A]) = ''M bin/gitauto.js''"
    by code_simp
  have n1: "\<forall>a\<in>set [''status'', ''--short'']. CHR 0x00 \<notin> set a"
    by simp
  have n2: "\<exists>a\<in>set [''add'', [CHR ''a'', CHR 0x00]]. CHR 0x00 \<in> set a"
    by simp
  note T = git_result_trimmed [of replay "[''status'', ''--short'']" "start [?r]" ?r "[]", OF h]
  note A = T [THEN conjunct2, THEN conjunct1, THEN mp, OF n1]
  note B = T [THEN conjunct2, THEN conjunct2, THEN conjunct1]
  note C = git_result_trimmed [of replay "[''add'', [CHR ''a'', CHR 0x00]]" "start [?r]" ?r "[]",
      OF k, THEN conjunct1, THEN mp, OF n2]
  have "git_adapter replay [''status'', ''--short''] (start [?r])
       = Inr (\<lparr> ok = False, stdout = ''M bin/gitauto.js'',
                 stderr = ''warning: not a git repository'' \<rparr>,
              \<lparr> world = [], calls = [[''status'', ''--short'']], console = [] \<rparr>)"
    unfolding A B using t u by (simp add: exited_def or_empty_def start_def)
  with h C show ?thesis
    by simp
qed

text \<open>
  The claim as stated has the adapter never throw, and has \<^verbatim>\<open>stderr\<close> non-empty
  whenever the tool wrote to standard error. With an argument that contains the
  character U+0000 the adapter throws. A tool that exits with status 1 after writing a
  single line feed to standard error gives \<^verbatim>\<open>ok:false\<close> and an empty \<^verbatim>\<open>stderr\<close>.
\<close>

theorem git_blank_stderr_counterexample:
  "git_adapter replay [''add'', [CHR ''a'', CHR 0x00]] (start [exited 0 [] []]) = Inl TypeError
   \<and> status (exited 1 [] [CHR 0x0A]) \<noteq> Some 0
   \<and> raw_stderr (exited 1 [] [CHR 0x0A]) = Some [CHR 0x0A]
   \<and> git_adapter replay [''push'', ''origin'', ''main''] (start [exited 1 [] [CHR 0x0A]])
       = Inr (\<lparr> ok = False, stdout = [], stderr = [] \<rparr>,
              \<lparr> world = [], calls = [[''push'', ''origin'', ''main'']], console = [] \<rparr>)"
  by code_simp

section \<open>Properties of the AI failure report\<close>

lemma str_includes_lower:
  "str_includes m u \<Longrightarrow> str_includes (toLowerCase m) (toLowerCase u)"
  unfolding toLowerCase_def by (rule str_includes_map)

text \<open>
  Claim C4, as amended. The report lower-cases the message and tests it for the keys
  \<^verbatim>\<open>credit\<close>, \<^verbatim>\<open>quota\<close>, \<^verbatim>\<open>insufficient\<close>, then \<^verbatim>\<open>invalid\<close>, \<^verbatim>\<open>auth\<close>, \<^verbatim>\<open>401\<close>,
  then \<^verbatim>\<open>rate\<close>, \<^verbatim>\<open>429\<close>; the first group with a key in the message decides the lines
  printed, and a message with none of the keys is printed as it is after
  \<^verbatim>\<open>AI generation failed:\<close>. A key is found in whatever case the message has it. The
  four messages of the claim are reported as credits exhausted, invalid key, rate limit
  and unknown.
\<close>

theorem handleAiError_order:
  assumes l: "l = toLowerCase m"
  shows "(str_includes l ''credit'' \<or> str_includes l ''quota'' \<or> str_includes l ''insufficient''
            \<longrightarrow> handleAiError p (Some m)
                  = [Err ''AI API credits exhausted.'']
                    @ (if p = ''anthropic''
                       then [Info ''Billing: https://console.anthropic.com/settings/billing'']
                       else [])
                    @ (if p = ''openai''
                       then [Info ''Billing: https://platform.openai.com/account/billing'']
                       else [])
                    @ [Info ''Or skip AI with: gtxr --no-ai''])
       \<and> (\<not> (str_includes l ''credit'' \<or> str_includes l ''quota'' \<or> str_includes l ''insufficient'')
            \<and> (str_includes l ''invalid'' \<or> str_includes l ''auth'' \<or> str_includes l ''401'')
            \<longrightarrow> handleAiError p (Some m) = [Err ''Invalid API key. Reconfigure with: gtxr setup''])
       \<and> (\<not> (str_includes l ''credit'' \<or> str_includes l ''quota'' \<or> str_includes l ''insufficient'')
            \<and> \<not> (str_includes l ''invalid'' \<or> str_includes l ''auth'' \<or> str_includes l ''401'')
            \<and> (str_includes l ''rate'' \<or> str_includes l ''429'')
            \<longrightarrow> handleAiError p (Some m)
                  = [Err ''Rate limit hit. Wait a moment and retry, or use: gtxr --no-ai''])
       \<and> (\<not> (str_includes l ''credit'' \<or> str_includes l ''quota'' \<or> str_includes l ''insufficient'')
            \<and> \<not> (str_includes l ''invalid'' \<or> str_includes l ''auth'' \<or> str_includes l ''401'')
            \<and> \<not> (str_includes l ''rate'' \<or> str_includes l ''429'')
            \<longrightarrow> handleAiError p (Some m) = [Err (''AI generation failed: '' @ m)])
       \<and> (\<forall>u. str_includes m u
                \<and> toLowerCase u \<in> {''credit'', ''quota'', ''insufficient''}
            \<longrightarrow> hd (handleAiError p (Some m)) = Err ''AI API credits exhausted.'')
       \<and> hd (handleAiError p (Some ''insufficient_quota'')) = Err ''AI API credits exhausted.''
       \<and> handleAiError p (Some ''401 Unauthorized'')
           = [Err ''Invalid API key. Reconfigure with: gtxr setup'']
       \<and> handleAiError p (Some ''429 too many requests'')
           = [Err ''Rate limit hit. Wait a moment and retry, or use: gtxr --no-ai'']
       \<and> handleAiError p (Some ''ECONNRESET'') = [Err ''AI generation failed: ECONNRESET'']"
proof -
  have ci: "hd (handleAiError p (Some m)) = Err ''AI API credits exhausted.''"
    if "str_includes m u" and "toLowerCase u \<in> {''credit'', ''quota'', ''insufficient''}" for u
  proof -
    from that(1) have "str_includes (toLowerCase m) (toLowerCase u)"
      by (rule str_includes_lower)
    with that(2) have "str_includes (toLowerCase m) ''credit''
        \<or> str_includes (toLowerCase m) ''quota'' \<or> str_includes (toLowerCase m) ''insufficient''"
      by auto
    then show ?thesis
      by (auto simp add: handleAiError_def or_empty_def)
  qed
  then have ci': "\<forall>u. str_includes m u
                \<and> toLowerCase u \<in> {''credit'', ''quota'', ''insufficient''}
            \<longrightarrow> hd (handleAiError p (Some m)) = Err ''AI API credits exhausted.''"
    by blast
  have x1: "hd (handleAiError p (Some ''insufficient_quota'')) = Err ''AI API credits exhausted.''"
    by code_simp
  have x2: "handleAiError p (Some ''401 Unauthorized'')
           = [Err ''Invalid API key. Reconfigure with: gtxr setup'']"
    by code_simp
  have x3: "handleAiError p (Some ''429 too many requests'')
           = [Err ''Rate limit hit. Wait a moment and retry, or use: gtxr --no-ai'']"
    by code_simp
  have x4: "handleAiError p (Some ''ECONNRESET'') = [Err ''AI generation failed: ECONNRESET'']"
    by code_simp
  have m1: "str_includes l ''credit'' \<or> str_includes l ''quota'' \<or> str_includes l ''insufficient''
            \<longrightarrow> handleAiError p (Some m)
                  = [Err ''AI API credits exhausted.'']
                    @ (if p = ''anthropic''
                       then [Info ''Billing: https://console.anthropic.com/settings/billing'']
                       else [])
                    @ (if p = ''openai''
                       then [Info ''Billing: https://platform.openai.com/account/billing'']
                       else [])
                    @ [Info ''Or skip AI with: gtxr --no-ai'']"
    unfolding l by (simp add: handleAiError_def or_empty_def)
  have m2: "\<not> (str_includes l ''credit'' \<or> str_includes l ''quota'' \<or> str_includes l ''insufficient'')
            \<and> (str_includes l ''invalid'' \<or> str_includes l ''auth'' \<or> str_includes l ''401'')
            \<longrightarrow> handleAiError p (Some m) = [Err ''Invalid API key. Reconfigure with: gtxr setup'']"
    unfolding l by (simp add: handleAiError_def or_empty_def)
  have m3: "\<not> (str_includes l ''credit'' \<or> str_includes l ''quota'' \<or> str_includes l ''insufficient'')
            \<and> \<not> (str_includes l ''invalid'' \<or> str_includes l ''auth'' \<or> str_includes l ''401'')
            \<and> (str_includes l ''rate'' \<or> str_includes l ''429'')
            \<longrightarrow> handleAiError p (Some m)
                  = [Err ''Rate limit hit. Wait a moment and retry, or use: gtxr --no-ai'']"
    unfolding l by (simp add: handleAiError_def or_empty_def)
  have m4: "\<not> (str_includes l ''credit'' \<or> str_includes l ''quota'' \<or> str_includes l ''insufficient'')
            \<and> \<not> (str_includes l ''invalid'' \<or> str_includes l ''auth'' \<or> str_includes l ''401'')
            \<and> \<not> (str_includes l ''rate'' \<or> str_includes l ''429'')
            \<longrightarrow> handleAiError p (Some m) = [Err (''AI generation failed: '' @ m)]"
    unfolding l by (simp add: handleAiError_def or_empty_def)
  show ?thesis
    by (intro conjI) (rule m1, rule m2, rule m3, rule m4, rule ci', rule x1, rule x2, rule x3, rule x4)
qed

theorem handleAiError_order_witness:
  "str_includes ''Error: INSUFFICIENT_QUOTA'' ''INSUFFICIENT''
   \<and> toLowerCase ''INSUFFICIENT'' = ''insufficient''
   \<and> hd (handleAiError ''gemini'' (Some ''Error: INSUFFICIENT_QUOTA''))
       = Err ''AI API credits exhausted.''
   \<and> handleAiError ''openai'' (Some ''Error: INSUFFICIENT_QUOTA'')
       = [Err ''AI API credits exhausted.'',
          Info ''Billing: https://platform.openai.com/account/billing'',
          Info ''Or skip AI with: gtxr --no-ai'']
   \<and> handleAiError ''gemini'' (Some ''Invalid Authentication (rate 429)'')
       = [Err ''Invalid API key. Reconfigure with: gtxr setup'']
   \<and> handleAiError ''gemini'' (Some ''429 Too Many Requests'')
       = [Err ''Rate limit hit. Wait a moment and retry, or use: gtxr --no-ai'']
   \<and> handleAiError ''gemini'' (Some ''read ECONNRESET'')
       = [Err ''AI generation failed: read ECONNRESET'']"
proof -
  let ?m1 = "''Error: INSUFFICIENT_QUOTA''"
  let ?m2 = "''Invalid Authentication (rate 429)''"
  let ?m3 = "''429 Too Many Requests''"
  let ?m4 = "''read ECONNRESET''"
  have u: "str_includes ?m1 ''INSUFFICIENT''"
    by simp
  have v: "toLowerCase ''INSUFFICIENT'' = ''insufficient''"
    by code_simp
  have l1: "toLowerCase ?m1 = ''error: insufficient_quota''"
    by code_simp
  have l2: "toLowerCase ?m2 = ''invalid authentication (rate 429)''"
    by code_simp
  have l3: "toLowerCase ?m3 = ''429 too many requests''"
    by code_simp
  have l4: "toLowerCase ?m4 = ''read econnreset''"
    by code_simp
  have a: "str_includes (toLowerCase ?m1) ''credit'' \<or> str_includes (toLowerCase ?m1) ''quota''
            \<or> str_includes (toLowerCase ?m1) ''insufficient''"
    unfolding l1 by simp
  have b: "\<not> (str_includes (toLowerCase ?m2) ''credit'' \<or> str_includes (toLowerCase ?m2) ''quota''
            \<or> str_includes (toLowerCase ?m2) ''insufficient'')
          \<and> (str_includes (toLowerCase ?m2) ''invalid'' \<or> str_includes (toLowerCase ?m2) ''auth''
            \<or> str_includes (toLowerCase ?m2) ''401'')"
    unfolding l2 by simp
  have c: "\<not> (str_includes (toLowerCase ?m3) ''credit'' \<or> str_includes (toLowerCase ?m3) ''quota''
            \<or> str_includes (toLowerCase ?m3) ''insufficient'')
          \<and> \<not> (str_includes (toLowerCase ?m3) ''invalid'' \<or> str_includes (toLowerCase ?m3) ''auth''
            \<or> str_includes (toLowerCase ?m3) ''401'')
          \<and> (str_includes (toLowerCase ?m3) ''rate'' \<or> str_includes (toLowerCase ?m3) ''429'')"
    unfolding l3 by simp
  have d: "\<not> (str_includes (toLowerCase ?m4) ''credit'' \<or> str_includes (toLowerCase ?m4) ''quota''
            \<or> str_includes (toLowerCase ?m4) ''insufficient'')
          \<and> \<not> (str_includes (toLowerCase ?m4) ''invalid'' \<or> str_includes (toLowerCase ?m4) ''auth''
            \<or> str_includes (toLowerCase ?m4) ''401'')
          \<and> \<not> (str_includes (toLowerCase ?m4) ''rate'' \<or> str_includes (toLowerCase ?m4) ''429'')"
    unfolding l4 by simp
  note A = handleAiError_order [where p = "''openai''" and m = ?m1, OF refl, THEN conjunct1,
      rule_format, OF a]
  note B = handleAiError_order [where p = "''gemini''" and m = ?m2, OF refl, THEN conjunct2,
      THEN conjunct1, rule_format, OF b]
  note C = handleAiError_order [where p = "''gemini''" and m = ?m3, OF refl, THEN conjunct2,
      THEN conjunct2, THEN conjunct1, rule_format, OF c]
  note D = handleAiError_order [where p = "''gemini''" and m = ?m4, OF refl, THEN conjunct2,
      THEN conjunct2, THEN conjunct2, THEN conjunct1, rule_format, OF d]
  have A': "handleAiError ''openai'' (Some ?m1)
       = [Err ''AI API credits exhausted.'',
          Info ''Billing: https://platform.openai.com/account/billing'',
          Info ''Or skip AI with: gtxr --no-ai'']"
    using A by simp
  have D': "handleAiError ''gemini'' (Some ?m4) = [Err ''AI generation failed: read ECONNRESET'']"
    using D by simp
  have w: "toLowerCase ''INSUFFICIENT'' \<in> {''credit'', ''quota'', ''insufficient''}"
    unfolding v by simp
  note E = handleAiError_order [where p = "''gemini''" and m = ?m1, OF refl, THEN conjunct2,
      THEN conjunct2, THEN conjunct2, THEN conjunct2, THEN conjunct1, rule_format,
      OF conjI [OF u w]]
  show ?thesis
    by (intro conjI u v E A' B C D')
qed

text \<open>
  The claim as stated has \<^verbatim>\<open>credits\<close> for the first key. The message
  \<^verbatim>\<open>Your credit balance is too low\<close> of the test file has none of the keys
  \<^verbatim>\<open>credits\<close>, \<^verbatim>\<open>quota\<close>, \<^verbatim>\<open>insufficient\<close>, \<^verbatim>\<open>invalid\<close>, \<^verbatim>\<open>auth\<close>, \<^verbatim>\<open>401\<close>,
  \<^verbatim>\<open>rate\<close>, \<^verbatim>\<open>429\<close>, and yet it is reported as credits exhausted, not as unknown.
\<close>

theorem handleAiError_credit_counterexample:
  "\<not> str_includes (toLowerCase ''Your credit balance is too low'') ''credits''
   \<and> \<not> str_includes (toLowerCase ''Your credit balance is too low'') ''quota''
   \<and> \<not> str_includes (toLowerCase ''Your credit balance is too low'') ''insufficient''
   \<and> \<not> str_includes (toLowerCase ''Your credit balance is too low'') ''invalid''
   \<and> \<not> str_includes (toLowerCase ''Your credit balance is too low'') ''auth''
   \<and> \<not> str_includes (toLowerCase ''Your credit balance is too low'') ''401''
   \<and> \<not> str_includes (toLowerCase ''Your credit balance is too low'') ''rate''
   \<and> \<not> str_includes (toLowerCase ''Your credit balance is too low'') ''429''
   \<and> handleAiError ''anthropic'' (Some ''Your credit balance is too low'')
       = [Err ''AI API credits exhausted.'',
          Info ''Billing: https://console.anthropic.com/settings/billing'',
          Info ''Or skip AI with: gtxr --no-ai'']
   \<and> handleAiError ''anthropic'' (Some ''Your credit balance is too low'')
       \<noteq> [Err ''AI generation failed: Your credit balance is too low'']"
  by code_simp

section \<open>Properties of the argument parser\<close>

lemma parse_loop_step:
  "parse_loop opts (x # xs) =
     (if toLowerCase x \<notin> VALID_ARGS then
        Inl ([Err (''Unknown argument: '' @ [CHR 0x27] @ x @ [CHR 0x27]),
              Info ''Run 'gtxr --help' to see valid commands.''], 1)
      else if toLowerCase x = ''--branch'' \<or> toLowerCase x = ''-b'' then
        (case xs of
           [] \<Rightarrow> Inl ([Err ''--branch requires a branch name.''], 1)
         | name # rest \<Rightarrow> parse_loop (opts\<lparr> branch := Some name \<rparr>) rest)
      else parse_loop (set_flag (toLowerCase x) opts) xs)"
  by (simp add: Let_def set_flag_def)

lemma parse_loop_append:
  "parse_loop opts pre = Inr o1 \<Longrightarrow> parse_loop opts (pre @ rest) = parse_loop o1 rest"
proof (induction pre arbitrary: opts rule: length_induct)
  case (1 pre)
  show ?case
  proof (cases pre)
    case Nil
    with "1.prems" show ?thesis by simp
  next
    case (Cons x xs)
    show ?thesis
    proof (cases "toLowerCase x \<in> VALID_ARGS")
      case False
      with "1.prems" Cons show ?thesis
        by (simp add: parse_loop_step del: parse_loop.simps(2))
    next
      case valid: True
      show ?thesis
      proof (cases "toLowerCase x = ''--branch'' \<or> toLowerCase x = ''-b''")
        case True
        show ?thesis
        proof (cases xs)
          case Nil
          with "1.prems" Cons valid True show ?thesis
            by (simp add: parse_loop_step del: parse_loop.simps(2))
        next
          case (Cons n ys)
          with "1.prems" \<open>pre = x # xs\<close> valid True
          have "parse_loop (opts\<lparr> branch := Some n \<rparr>) ys = Inr o1"
            by (simp add: parse_loop_step del: parse_loop.simps(2))
          moreover have "length ys < length pre"
            using Cons \<open>pre = x # xs\<close> by simp
          ultimately have "parse_loop (opts\<lparr> branch := Some n \<rparr>) (ys @ rest) = parse_loop o1 rest"
            using "1.IH" by blast
          with Cons \<open>pre = x # xs\<close> valid True show ?thesis
            by (simp add: parse_loop_step del: parse_loop.simps(2))
        qed
      next
        case False
        with "1.prems" Cons valid
        have "parse_loop (set_flag (toLowerCase x) opts) xs = Inr o1"
          by (simp add: parse_loop_step del: parse_loop.simps(2))
        moreover have "length xs < length pre"
          using Cons by simp
        ultimately have "parse_loop (set_flag (toLowerCase x) opts) (xs @ rest) = parse_loop o1 rest"
          using "1.IH" by blast
        with Cons valid False show ?thesis
          by (simp add: parse_loop_step del: parse_loop.simps(2))
      qed
    qed
  qed
qed


lemma parse_loop_flags:
  assumes "\<forall>t\<in>set flags. toLowerCase t \<in> VALID_ARGS - {''--branch'', ''-b''}"
  shows "parse_loop opts flags
           = Inr (opts\<lparr>
               version := version opts \<or> ''-v'' \<in> toLowerCase ` set flags
                            \<or> ''--version'' \<in> toLowerCase ` set flags,
               help_flag := help_flag opts \<or> ''-h'' \<in> toLowerCase ` set flags
                            \<or> ''--help'' \<in> toLowerCase ` set flags,
               setup_flag := setup_flag opts \<or> ''setup'' \<in> toLowerCase ` set flags,
               upgrade := upgrade opts \<or> ''upgrade'' \<in> toLowerCase ` set flags,
               uninstall := uninstall opts \<or> ''uninstall'' \<in> toLowerCase ` set flags,
               noPush := noPush opts \<or> ''--no-push'' \<in> toLowerCase ` set flags,
               noAi := noAi opts \<or> ''--no-ai'' \<in> toLowerCase ` set flags,
               forcePush := forcePush opts \<or> ''--force-push'' \<in> toLowerCase ` set flags \<rparr>)"
  using assms
proof (induction flags arbitrary: opts)
  case Nil
  show ?case by simp
next
  case (Cons x xs)
  from Cons.prems have rest: "\<forall>t\<in>set xs. toLowerCase t \<in> VALID_ARGS - {''--branch'', ''-b''}"
    by simp
  from Cons.prems have valid: "toLowerCase x \<in> VALID_ARGS"
    and nb: "\<not> (toLowerCase x = ''--branch'' \<or> toLowerCase x = ''-b'')"
    by simp_all
  have step: "parse_loop opts (x # xs) = parse_loop (set_flag (toLowerCase x) opts) xs"
    using valid nb by (simp add: parse_loop_step del: parse_loop.simps(2))
  from valid nb consider
      "toLowerCase x = ''-v''" | "toLowerCase x = ''--version''"
    | "toLowerCase x = ''-h''" | "toLowerCase x = ''--help''"
    | "toLowerCase x = ''setup''" | "toLowerCase x = ''upgrade''"
    | "toLowerCase x = ''uninstall''" | "toLowerCase x = ''--no-push''"
    | "toLowerCase x = ''--no-ai''" | "toLowerCase x = ''--force-push''"
    unfolding VALID_ARGS_def by blast
  then show ?case
    unfolding step Cons.IH [OF rest]
    by cases (simp_all add: set_flag_def del: parse_loop.simps(2))
qed

lemma parse_loop_exit_status: "parse_loop opts args = Inl e \<Longrightarrow> snd e = 1"
proof (induction args arbitrary: opts rule: length_induct)
  case (1 args)
  show ?case
  proof (cases args)
    case Nil
    with "1.prems" show ?thesis by simp
  next
    case (Cons x xs)
    show ?thesis
    proof (cases xs)
      case Nil
      with "1.prems" Cons "1.IH" [rule_format, of xs] show ?thesis
        by (auto simp add: parse_loop_step simp del: parse_loop.simps(2) split: if_splits)
    next
      case inner: (Cons n ys)
      with "1.prems" Cons "1.IH" [rule_format, of xs] "1.IH" [rule_format, of ys] show ?thesis
        by (auto simp add: parse_loop_step simp del: parse_loop.simps(2) split: if_splits)
    qed
  qed
qed


text \<open>
  Claim C6, as amended. The parser reads the tokens from left to right and compares each
  token in option position, in lower case, with the fixed set \<^verbatim>\<open>VALID_ARGS\<close>. After any
  tokens that parse completely: when \<^verbatim>\<open>--branch\<close> or \<^verbatim>\<open>-b\<close> comes last the program ends
  with exit status 1 and the single line \<^verbatim>\<open>--branch requires a branch name.\<close>, without a
  usage hint; the token after \<^verbatim>\<open>--branch\<close> or \<^verbatim>\<open>-b\<close> becomes the branch name as it is,
  whatever it is; at a token outside the set the program ends with exit status 1, the
  line \<^verbatim>\<open>Unknown argument\<close> and the usage hint pointing to \<^verbatim>\<open>gtxr --help\<close>, whatever
  follows. Every exit of the parser has status 1. Flags without a value each set their own
  member and leave the others as they were, so \<^verbatim>\<open>--no-push --no-ai\<close> sets both \<^verbatim>\<open>noPush\<close>
  and \<^verbatim>\<open>noAi\<close>.
\<close>

theorem parseArgs_fatal_and_flags:
  assumes pre: "parseArgs (node # script # pre) = Inr o1"
  shows "(toLowerCase b = ''--branch'' \<or> toLowerCase b = ''-b'' \<longrightarrow>
            parseArgs (node # script # pre @ [b])
              = Inl ([Err ''--branch requires a branch name.''], 1))
       \<and> (toLowerCase b = ''--branch'' \<or> toLowerCase b = ''-b'' \<longrightarrow>
            parseArgs (node # script # pre @ [b, n]) = Inr (o1\<lparr> branch := Some n \<rparr>))
       \<and> (toLowerCase x \<notin> VALID_ARGS \<longrightarrow>
            parseArgs (node # script # pre @ x # rest)
              = Inl ([Err (''Unknown argument: '' @ [CHR 0x27] @ x @ [CHR 0x27]),
                      Info ''Run 'gtxr --help' to see valid commands.''], 1))
       \<and> ((\<forall>t\<in>set flags. toLowerCase t \<in> VALID_ARGS - {''--branch'', ''-b''}) \<longrightarrow>
            parseArgs (node # script # pre @ flags)
              = Inr (o1\<lparr>
                  version := version o1 \<or> ''-v'' \<in> toLowerCase ` set flags
                               \<or> ''--version'' \<in> toLowerCase ` set flags,
                  help_flag := help_flag o1 \<or> ''-h'' \<in> toLowerCase ` set flags
                               \<or> ''--help'' \<in> toLowerCase ` set flags,
                  setup_flag := setup_flag o1 \<or> ''setup'' \<in> toLowerCase ` set flags,
                  upgrade := upgrade o1 \<or> ''upgrade'' \<in> toLowerCase ` set flags,
                  uninstall := uninstall o1 \<or> ''uninstall'' \<in> toLowerCase ` set flags,
                  noPush := noPush o1 \<or> ''--no-push'' \<in> toLowerCase ` set flags,
                  noAi := noAi o1 \<or> ''--no-ai'' \<in> toLowerCase ` set flags,
                  forcePush := forcePush o1 \<or> ''--force-push'' \<in> toLowerCase ` set flags \<rparr>))
       \<and> (\<forall>argv e. parseArgs argv = Inl e \<longrightarrow> snd e = 1)
       \<and> parseArgs [node, script, ''--no-push'', ''--no-ai'']
           = Inr (initial_opts\<lparr> noPush := True, noAi := True \<rparr>)"
proof -
  from pre have p: "parse_loop initial_opts pre = Inr o1"
    by (simp add: parseArgs_def)
  have cont: "parseArgs (node # script # pre @ more) = parse_loop o1 more" for more
    using parse_loop_append [OF p] by (simp add: parseArgs_def)
  have a: "toLowerCase b = ''--branch'' \<or> toLowerCase b = ''-b'' \<longrightarrow>
            parseArgs (node # script # pre @ [b])
              = Inl ([Err ''--branch requires a branch name.''], 1)"
    unfolding cont by (auto simp add: parse_loop_step VALID_ARGS_def simp del: parse_loop.simps(2))
  have a': "toLowerCase b = ''--branch'' \<or> toLowerCase b = ''-b'' \<longrightarrow>
            parseArgs (node # script # pre @ [b, n]) = Inr (o1\<lparr> branch := Some n \<rparr>)"
    unfolding cont by (auto simp add: parse_loop_step VALID_ARGS_def simp del: parse_loop.simps(2))
  have b: "toLowerCase x \<notin> VALID_ARGS \<longrightarrow>
            parseArgs (node # script # pre @ x # rest)
              = Inl ([Err (''Unknown argument: '' @ [CHR 0x27] @ x @ [CHR 0x27]),
                      Info ''Run 'gtxr --help' to see valid commands.''], 1)"
    unfolding cont by (simp add: parse_loop_step del: parse_loop.simps(2))
  have c: "(\<forall>t\<in>set flags. toLowerCase t \<in> VALID_ARGS - {''--branch'', ''-b''}) \<longrightarrow>
            parseArgs (node # script # pre @ flags)
              = Inr (o1\<lparr>
                  version := version o1 \<or> ''-v'' \<in> toLowerCase ` set flags
                               \<or> ''--version'' \<in> toLowerCase ` set flags,
                  help_flag := help_flag o1 \<or> ''-h'' \<in> toLowerCase ` set flags
                               \<or> ''--help'' \<in> toLowerCase ` set flags,
                  setup_flag := setup_flag o1 \<or> ''setup'' \<in> toLowerCase ` set flags,
                  upgrade := upgrade o1 \<or> ''upgrade'' \<in> toLowerCase ` set flags,
                  uninstall := uninstall o1 \<or> ''uninstall'' \<in> toLowerCase ` set flags,
                  noPush := noPush o1 \<or> ''--no-push'' \<in> toLowerCase ` set flags,
                  noAi := noAi o1 \<or> ''--no-ai'' \<in> toLowerCase ` set flags,
                  forcePush := forcePush o1 \<or> ''--force-push'' \<in> toLowerCase ` set flags \<rparr>)"
    unfolding cont using parse_loop_flags [of flags o1] by blast
  have d: "\<forall>argv e. parseArgs argv = Inl e \<longrightarrow> snd e = 1"
    unfolding parseArgs_def using parse_loop_exit_status by blast
  have e: "parseArgs [node, script, ''--no-push'', ''--no-ai'']
           = Inr (initial_opts\<lparr> noPush := True, noAi := True \<rparr>)"
    by code_simp
  show ?thesis
    by (intro conjI a a' b c d e)
qed

theorem parseArgs_fatal_and_flags_witness:
  "parseArgs [''node'', ''gtxr'', ''--no-ai'', ''-b'', ''dev'']
     = Inr (initial_opts\<lparr> noAi := True, branch := Some ''dev'' \<rparr>)
   \<and> parseArgs [''node'', ''gtxr'', ''--no-ai'', ''-b'', ''dev'', ''--BRANCH'']
       = Inl ([Err ''--branch requires a branch name.''], 1)
   \<and> parseArgs [''node'', ''gtxr'', ''--no-ai'', ''-b'', ''dev'', ''--BRANCH'', ''--no-push'']
       = Inr (initial_opts\<lparr> noAi := True, branch := Some ''--no-push'' \<rparr>)
   \<and> parseArgs [''node'', ''gtxr'', ''--no-ai'', ''-b'', ''dev'', ''--dry-run'', ''--no-push'']
       = Inl ([Err (''Unknown argument: '--dry-run'' @ [CHR 0x27]),
               Info ''Run 'gtxr --help' to see valid commands.''], 1)
   \<and> parseArgs [''node'', ''gtxr'', ''--no-ai'', ''-b'', ''dev'', ''--no-push'', ''--FORCE-PUSH'']
       = Inr (initial_opts\<lparr> noPush := True, noAi := True, forcePush := True,
                             branch := Some ''dev'' \<rparr>)"
proof -
  let ?pre = "[''--no-ai'', ''-b'', ''dev'']"
  let ?o1 = "initial_opts\<lparr> noAi := True, branch := Some ''dev'' \<rparr>"
  have h: "parseArgs (''node'' # ''gtxr'' # ?pre) = Inr ?o1"
    by code_simp
  have hb: "toLowerCase ''--BRANCH'' = ''--branch'' \<or> toLowerCase ''--BRANCH'' = ''-b''"
    by code_simp
  have hx: "toLowerCase ''--dry-run'' \<notin> VALID_ARGS"
    by code_simp
  have hf: "\<forall>t\<in>set [''--no-push'', ''--FORCE-PUSH''].
              toLowerCase t \<in> VALID_ARGS - {''--branch'', ''-b''}"
    by code_simp
  have img: "toLowerCase ` set [''--no-push'', ''--FORCE-PUSH''] = {''--no-push'', ''--force-push''}"
    by code_simp
  note T = parseArgs_fatal_and_flags [OF h]
  note A = T [where b = "''--BRANCH''", THEN conjunct1, rule_format, OF hb]
  note A' = T [where b = "''--BRANCH''" and n = "''--no-push''",
      THEN conjunct2, THEN conjunct1, rule_format, OF hb]
  note B = T [where x = "''--dry-run''" and rest = "[''--no-push'']",
      THEN conjunct2, THEN conjunct2, THEN conjunct1, rule_format, OF hx]
  note C = T [where flags = "[''--no-push'', ''--FORCE-PUSH'']",
      THEN conjunct2, THEN conjunct2, THEN conjunct2, THEN conjunct1, THEN mp, OF hf]
  have C': "parseArgs [''node'', ''gtxr'', ''--no-ai'', ''-b'', ''dev'', ''--no-push'', ''--FORCE-PUSH'']
       = Inr (initial_opts\<lparr> noPush := True, noAi := True, forcePush := True,
                             branch := Some ''dev'' \<rparr>)"
    using C unfolding img by (simp add: initial_opts_def)
  have A'': "parseArgs [''node'', ''gtxr'', ''--no-ai'', ''-b'', ''dev'', ''--BRANCH'', ''--no-push'']
       = Inr (initial_opts\<lparr> noAi := True, branch := Some ''--no-push'' \<rparr>)"
    using A' by (simp add: initial_opts_def)
  show ?thesis
    using h A A'' B C' by simp
qed

text \<open>
  The claim as stated has a usage hint printed when \<^verbatim>\<open>--branch\<close> comes last, and a
  fatal exit for any token outside the recognized set. With \<^verbatim>\<open>--branch\<close> last the one
  line printed is the error, and the hint to run \<^verbatim>\<open>gtxr --help\<close> is not printed. The
  token \<^verbatim>\<open>--dry-run\<close> after \<^verbatim>\<open>-b\<close> is outside the set in any case and is accepted as the
  branch name; \<^verbatim>\<open>--no-push\<close> after \<^verbatim>\<open>-b\<close> is taken as the branch name and sets no flag;
  and \<^verbatim>\<open>--NO-PUSH\<close>, which is not a member of the set, is accepted and sets
  \<^verbatim>\<open>noPush\<close>.
\<close>

theorem parseArgs_branch_hint_counterexample:
  "parseArgs [''node'', ''gtxr'', ''--branch'']
     = Inl ([Err ''--branch requires a branch name.''], 1)
   \<and> Info ''Run 'gtxr --help' to see valid commands.''
       \<notin> set [Err ''--branch requires a branch name.'']
   \<and> toLowerCase ''--dry-run'' \<notin> VALID_ARGS
   \<and> parseArgs [''node'', ''gtxr'', ''-b'', ''--dry-run'']
       = Inr (initial_opts\<lparr> branch := Some ''--dry-run'' \<rparr>)
   \<and> parseArgs [''node'', ''gtxr'', ''-b'', ''--no-push'']
       = Inr (initial_opts\<lparr> branch := Some ''--no-push'' \<rparr>)
   \<and> \<not> noPush (initial_opts\<lparr> branch := Some ''--no-push'' \<rparr>)
   \<and> ''--NO-PUSH'' \<notin> VALID_ARGS
   \<and> parseArgs [''node'', ''gtxr'', ''--NO-PUSH''] = Inr (initial_opts\<lparr> noPush := True \<rparr>)"
  by code_simp

section \<open>Properties of the configuration store\<close>




end
